theory Spec2Isabelle
  imports Complex_Main "HOL-Library.Char_ord" "HOL-Library.List_Lexorder" "HOL-Library.Multiset"
    "HOL-Library.Option_ord"
begin

section \<open>The store: two tables\<close>

text \<open>
  The database file holds the tables \<^verbatim>\<open>categories(id, name, color, type)\<close> and
  \<^verbatim>\<open>transactions(id, amount, category_id, date, description, type)\<close>. A table is the
  list of its rows in insertion order. Text columns are strings compared byte by byte
  (SQLite's BINARY collation and Python's code point order agree with the lexicographic
  order on UTF-8 bytes), a nullable column is an option, and the REAL column
  \<^verbatim>\<open>amount\<close> is an exact real number: rounding of IEEE doubles is not modelled.
\<close>

record category =
  c_id :: int
  c_name :: string
  c_color :: string
  c_type :: string

record transaction =
  t_id :: int
  t_amount :: real
  t_category_id :: "int option"
  t_date :: string
  t_description :: string
  t_type :: string

record db =
  categories :: "category list"
  transactions :: "transaction list"

text \<open>
  \<^verbatim>\<open>cursor.lastrowid\<close> after an INSERT that gives no id: the column is an
  \<^verbatim>\<open>INTEGER PRIMARY KEY\<close> without AUTOINCREMENT, so the new id is 1 in an empty table and
  one more than the largest id in use otherwise. Ids are unbounded integers here; the
  end of SQLite's 64-bit range is not modelled.
\<close>

definition lastrowid :: "int list \<Rightarrow> int" where
  "lastrowid ids = (if ids = [] then 1 else Max (set ids) + 1)"

text \<open>
  The standard library's \<^verbatim>\<open>datetime\<close> is not code of the repository. The operations take
  what they use of it as a parameter: the value of \<^verbatim>\<open>datetime.now()\<close> at the call,
  \<^verbatim>\<open>datetime.strptime(s, "%Y-%m-%d")\<close> (\<open>None\<close> where it raises ValueError) and
  \<^verbatim>\<open>d.strftime("%Y-%m-%d")\<close>, over any type \<open>'d\<close> of datetime values.
\<close>

record 'd datetime_api =
  now :: 'd
  strptime :: "string \<Rightarrow> 'd option"
  strftime :: "'d \<Rightarrow> string"

text \<open>A date argument is absent (\<^verbatim>\<open>None\<close>), a string or a datetime object.\<close>

datatype 'd date_arg = NoDate | DateStr string | DateObj 'd

text \<open>
  The exceptions that leave a method of the model: no \<^verbatim>\<open>except\<close> clause of the source
  catches them.
\<close>

datatype py_error = ZeroDivisionError | AttributeError | TypeError

text \<open>
  An instance for evaluating the operations on concrete inputs: a datetime is a
  (year, month, day) triple, only zero-padded ASCII \<^verbatim>\<open>YYYY-MM-DD\<close> with a month in 1..12
  and a day in 1..31 parses, and the clock shows 2024-06-15.
\<close>

definition digit :: "char \<Rightarrow> nat option" where
  "digit c = (let n = of_char c in if (48::nat) \<le> n \<and> n \<le> 57 then Some (n - 48) else None)"

fun digits :: "string \<Rightarrow> nat option" where
  "digits [] = Some 0"
| "digits (c # cs) =
     (case (digit c, digits cs) of
        (Some n, Some m) \<Rightarrow> Some (n * 10 ^ length cs + m)
      | _ \<Rightarrow> None)"

definition iso_strptime :: "string \<Rightarrow> (nat \<times> nat \<times> nat) option" where
  "iso_strptime s =
     (if length s = 10 \<and> s ! 4 = CHR ''-'' \<and> s ! 7 = CHR ''-'' then
        (case (digits (take 4 s), digits (take 2 (drop 5 s)), digits (drop 8 s)) of
           (Some y, Some m, Some d) \<Rightarrow>
             if 1 \<le> y \<and> 1 \<le> m \<and> m \<le> 12 \<and> 1 \<le> d \<and> d \<le> 31 then Some (y, m, d) else None
         | _ \<Rightarrow> None)
      else None)"

definition digit_char :: "nat \<Rightarrow> char" where
  "digit_char n = ''0123456789'' ! (n mod 10)"

definition iso_strftime :: "nat \<times> nat \<times> nat \<Rightarrow> string" where
  "iso_strftime = (\<lambda>(y, m, d).
     [digit_char (y div 1000), digit_char (y div 100), digit_char (y div 10), digit_char y,
      CHR ''-'', digit_char (m div 10), digit_char m,
      CHR ''-'', digit_char (d div 10), digit_char d])"

definition iso_api :: "(nat \<times> nat \<times> nat) datetime_api" where
  "iso_api = \<lparr>now = (2024, 6, 15), strptime = iso_strptime, strftime = iso_strftime\<rparr>"

text \<open>
  A second instance, for Python on the C library of Linux: there \<^verbatim>\<open>%Y\<close> writes the year
  without leading zeros, so a date of the year 5 is formatted as \<^verbatim>\<open>5-01-01\<close>. Month and day
  are padded as before, and the parser is the same.
\<close>

definition glibc_strftime :: "nat \<times> nat \<times> nat \<Rightarrow> string" where
  "glibc_strftime = (\<lambda>(y, m, d).
     dropWhile (\<lambda>c. c = CHR ''0'')
       [digit_char (y div 1000), digit_char (y div 100), digit_char (y div 10)]
     @ [digit_char y, CHR ''-'', digit_char (m div 10), digit_char m,
        CHR ''-'', digit_char (d div 10), digit_char d])"

definition glibc_api :: "(nat \<times> nat \<times> nat) datetime_api" where
  "glibc_api = \<lparr>now = (2024, 6, 15), strptime = iso_strptime, strftime = glibc_strftime\<rparr>"

text \<open>
  SQLite's \<^verbatim>\<open>strftime('%Y-%m', date)\<close> is library code as well: the month key of a date,
  or NULL (\<open>None\<close>) for a text that SQLite reads no date from. The monthly query takes it as
  a parameter. The instance for evaluation: a calendar date written \<^verbatim>\<open>YYYY-MM-DD\<close> has the
  month key of its first seven characters, and every other text has none (the other time
  formats of SQLite are not in this instance).
\<close>

definition days_in_month :: "nat \<Rightarrow> nat \<Rightarrow> nat" where
  "days_in_month y m =
     (if m = 2 then (if y mod 4 = 0 \<and> (y mod 100 \<noteq> 0 \<or> y mod 400 = 0) then 29 else 28)
      else if m = 4 \<or> m = 6 \<or> m = 9 \<or> m = 11 then 30
      else 31)"

definition iso_month :: "string \<Rightarrow> string option" where
  "iso_month date =
     (case iso_strptime date of
        Some (y, m, d) \<Rightarrow> if d \<le> days_in_month y m then Some (take 7 date) else None
      | None \<Rightarrow> None)"

section \<open>Category repository\<close>

text \<open>
  The default categories of \<^verbatim>\<open>_create_default_categories\<close>, as (name, color, type); the
  names are Russian words, written as their UTF-8 bytes (groceries, transport, housing,
  entertainment, health, clothing, education, other; salary, freelance, investments,
  gifts, other).
\<close>

definition expense_categories :: "(string \<times> string \<times> string) list" where
  "expense_categories =
     [([CHR 0xD0, CHR 0x9F, CHR 0xD1, CHR 0x80, CHR 0xD0, CHR 0xBE, CHR 0xD0,
        CHR 0xB4, CHR 0xD1, CHR 0x83, CHR 0xD0, CHR 0xBA, CHR 0xD1, CHR 0x82,
        CHR 0xD1, CHR 0x8B],
       ''#4CAF50'', ''expense''),
      ([CHR 0xD0, CHR 0xA2, CHR 0xD1, CHR 0x80, CHR 0xD0, CHR 0xB0, CHR 0xD0,
        CHR 0xBD, CHR 0xD1, CHR 0x81, CHR 0xD0, CHR 0xBF, CHR 0xD0, CHR 0xBE,
        CHR 0xD1, CHR 0x80, CHR 0xD1, CHR 0x82],
       ''#2196F3'', ''expense''),
      ([CHR 0xD0, CHR 0x96, CHR 0xD0, CHR 0xB8, CHR 0xD0, CHR 0xBB, CHR 0xD1,
        CHR 0x8C, CHR 0xD0, CHR 0xB5],
       ''#FFC107'', ''expense''),
      ([CHR 0xD0, CHR 0xA0, CHR 0xD0, CHR 0xB0, CHR 0xD0, CHR 0xB7, CHR 0xD0,
        CHR 0xB2, CHR 0xD0, CHR 0xBB, CHR 0xD0, CHR 0xB5, CHR 0xD1, CHR 0x87,
        CHR 0xD0, CHR 0xB5, CHR 0xD0, CHR 0xBD, CHR 0xD0, CHR 0xB8, CHR 0xD1,
        CHR 0x8F],
       ''#9C27B0'', ''expense''),
      ([CHR 0xD0, CHR 0x97, CHR 0xD0, CHR 0xB4, CHR 0xD0, CHR 0xBE, CHR 0xD1,
        CHR 0x80, CHR 0xD0, CHR 0xBE, CHR 0xD0, CHR 0xB2, CHR 0xD1, CHR 0x8C,
        CHR 0xD0, CHR 0xB5],
       ''#F44336'', ''expense''),
      ([CHR 0xD0, CHR 0x9E, CHR 0xD0, CHR 0xB4, CHR 0xD0, CHR 0xB5, CHR 0xD0,
        CHR 0xB6, CHR 0xD0, CHR 0xB4, CHR 0xD0, CHR 0xB0],
       ''#FF9800'', ''expense''),
      ([CHR 0xD0, CHR 0x9E, CHR 0xD0, CHR 0xB1, CHR 0xD1, CHR 0x80, CHR 0xD0,
        CHR 0xB0, CHR 0xD0, CHR 0xB7, CHR 0xD0, CHR 0xBE, CHR 0xD0, CHR 0xB2,
        CHR 0xD0, CHR 0xB0, CHR 0xD0, CHR 0xBD, CHR 0xD0, CHR 0xB8, CHR 0xD0,
        CHR 0xB5],
       ''#795548'', ''expense''),
      ([CHR 0xD0, CHR 0x9F, CHR 0xD1, CHR 0x80, CHR 0xD0, CHR 0xBE, CHR 0xD1,
        CHR 0x87, CHR 0xD0, CHR 0xB5, CHR 0xD0, CHR 0xB5],
       ''#607D8B'', ''expense'')]"

definition income_categories :: "(string \<times> string \<times> string) list" where
  "income_categories =
     [([CHR 0xD0, CHR 0x97, CHR 0xD0, CHR 0xB0, CHR 0xD1, CHR 0x80, CHR 0xD0,
        CHR 0xBF, CHR 0xD0, CHR 0xBB, CHR 0xD0, CHR 0xB0, CHR 0xD1, CHR 0x82,
        CHR 0xD0, CHR 0xB0],
       ''#4CAF50'', ''income''),
      ([CHR 0xD0, CHR 0xA4, CHR 0xD1, CHR 0x80, CHR 0xD0, CHR 0xB8, CHR 0xD0,
        CHR 0xBB, CHR 0xD0, CHR 0xB0, CHR 0xD0, CHR 0xBD, CHR 0xD1, CHR 0x81],
       ''#2196F3'', ''income''),
      ([CHR 0xD0, CHR 0x98, CHR 0xD0, CHR 0xBD, CHR 0xD0, CHR 0xB2, CHR 0xD0,
        CHR 0xB5, CHR 0xD1, CHR 0x81, CHR 0xD1, CHR 0x82, CHR 0xD0, CHR 0xB8,
        CHR 0xD1, CHR 0x86, CHR 0xD0, CHR 0xB8, CHR 0xD0, CHR 0xB8],
       ''#FFC107'', ''income''),
      ([CHR 0xD0, CHR 0x9F, CHR 0xD0, CHR 0xBE, CHR 0xD0, CHR 0xB4, CHR 0xD0,
        CHR 0xB0, CHR 0xD1, CHR 0x80, CHR 0xD0, CHR 0xBA, CHR 0xD0, CHR 0xB8],
       ''#9C27B0'', ''income''),
      ([CHR 0xD0, CHR 0x9F, CHR 0xD1, CHR 0x80, CHR 0xD0, CHR 0xBE, CHR 0xD1,
        CHR 0x87, CHR 0xD0, CHR 0xB5, CHR 0xD0, CHR 0xB5],
       ''#607D8B'', ''income'')]"

text \<open>
  \<^verbatim>\<open>INSERT INTO categories (name, color, type) VALUES (?, ?, ?)\<close>: a row under a fresh
  id; \<^verbatim>\<open>executemany\<close> runs it for each triple of a list in turn.
\<close>

definition insert_category :: "string \<times> string \<times> string \<Rightarrow> db \<Rightarrow> db" where
  "insert_category = (\<lambda>(name, color, category_type) s.
     s\<lparr>categories := categories s @
          [\<lparr>c_id = lastrowid (map c_id (categories s)), c_name = name, c_color = color,
            c_type = category_type\<rparr>]\<rparr>)"

definition executemany :: "(string \<times> string \<times> string) list \<Rightarrow> db \<Rightarrow> db" where
  "executemany rows s = fold insert_category rows s"

text \<open>
  \<^verbatim>\<open>_create_default_categories\<close>: for each of the two types, the defaults are inserted
  when the table has no category of that type.
\<close>

definition create_default_categories :: "db \<Rightarrow> db" where
  "create_default_categories s =
     (let s1 = (if length (filter (\<lambda>c. c_type c = ''expense'') (categories s)) = 0
                then executemany expense_categories s else s);
          s2 = (if length (filter (\<lambda>c. c_type c = ''income'') (categories s1)) = 0
                then executemany income_categories s1 else s1)
      in s2)"

text \<open>
  \<^verbatim>\<open>init_db\<close>: the two \<^verbatim>\<open>CREATE TABLE IF NOT EXISTS\<close> leave existing tables alone, and
  a new database file has both tables empty; then the defaults.
\<close>

definition new_file :: db where
  "new_file = \<lparr>categories = [], transactions = []\<rparr>"

definition init_db :: "db \<Rightarrow> db" where
  "init_db s = create_default_categories s"

text \<open>
  \<^verbatim>\<open>Database.add_category\<close>: the SELECT on (name, type) returns the first matching row, if
  any, and then nothing is written; otherwise a row is appended under a fresh id. The
  result \<open>None\<close> of the source needs a failure of the store itself, which a list of rows
  does not have.
\<close>

definition add_category :: "string \<Rightarrow> string \<Rightarrow> string \<Rightarrow> db \<Rightarrow> int option \<times> db" where
  "add_category name color category_type s =
     (case find (\<lambda>c. c_name c = name \<and> c_type c = category_type) (categories s) of
        Some existing \<Rightarrow> (Some (c_id existing), s)
      | None \<Rightarrow>
          (Some (lastrowid (map c_id (categories s))),
           insert_category (name, color, category_type) s))"

text \<open>
  A sequence of \<^verbatim>\<open>add_category\<close> calls, each given as its (name, color, type), run one
  after the other on the store.
\<close>

definition add_categories :: "(string \<times> string \<times> string) list \<Rightarrow> db \<Rightarrow> db" where
  "add_categories calls s =
     fold (\<lambda>(name, color, category_type) s'. snd (add_category name color category_type s')) calls s"

text \<open>No two category rows have the same (name, type).\<close>

definition name_type_unique :: "db \<Rightarrow> bool" where
  "name_type_unique s = distinct (map (\<lambda>c. (c_name c, c_type c)) (categories s))"

text \<open>
  \<^verbatim>\<open>Database.update_category\<close>: renames and recolours the rows with the given id, with no
  look at the other rows, and reports whether a row matched.
\<close>

definition update_category :: "int \<Rightarrow> string \<Rightarrow> string \<Rightarrow> db \<Rightarrow> bool \<times> db" where
  "update_category category_id name color s =
     (length (filter (\<lambda>c. c_id c = category_id) (categories s)) > 0,
      s\<lparr>categories :=
          map (\<lambda>c. if c_id c = category_id then c\<lparr>c_name := name, c_color := color\<rparr> else c)
            (categories s)\<rparr>)"

text \<open>
  \<^verbatim>\<open>Database.delete_category\<close>: first the UPDATE that sets \<^verbatim>\<open>category_id = NULL\<close> on the
  transactions of the category, then the DELETE of the category row; the result is
  \<^verbatim>\<open>rowcount > 0\<close> of the DELETE.
\<close>

definition delete_category :: "int \<Rightarrow> db \<Rightarrow> bool \<times> db" where
  "delete_category category_id s =
     (let s1 = s\<lparr>transactions :=
                  map (\<lambda>t. if t_category_id t = Some category_id
                            then t\<lparr>t_category_id := None\<rparr> else t)
                    (transactions s)\<rparr>;
          rowcount = length (filter (\<lambda>c. c_id c = category_id) (categories s1));
          s2 = s1\<lparr>categories := filter (\<lambda>c. c_id c \<noteq> category_id) (categories s1)\<rparr>
      in (rowcount > 0, s2))"

section \<open>Transaction repository: writes\<close>

text \<open>
  \<^verbatim>\<open>Database.add_transaction\<close>: both ValueErrors are caught in the method and turned into
  the result \<open>None\<close>, before any statement has run. A missing date is the clock's, a string
  is parsed and the clock's date replaces one that does not parse. The foreign key of
  \<^verbatim>\<open>category_id\<close> is declared in the schema, but \<^verbatim>\<open>get_connection\<close> never switches
  foreign keys on, so the INSERT does not look at the categories.
\<close>

definition add_transaction ::
  "'d datetime_api \<Rightarrow> real \<Rightarrow> int option \<Rightarrow> string \<Rightarrow> string \<Rightarrow> 'd date_arg \<Rightarrow> db
     \<Rightarrow> int option \<times> db" where
  "add_transaction api amount category_id description transaction_type date s =
     (if transaction_type \<notin> set [''income'', ''expense''] then (None, s)
      else if amount \<le> 0 then (None, s)
      else
        (let date1 = (case date of NoDate \<Rightarrow> DateObj (now api) | _ \<Rightarrow> date);
             date2 = (case date1 of
                        DateStr str \<Rightarrow>
                          (case strptime api str of Some d \<Rightarrow> d | None \<Rightarrow> now api)
                      | DateObj d \<Rightarrow> d
                      | NoDate \<Rightarrow> now api);
             date_str = strftime api date2;
             new_id = lastrowid (map t_id (transactions s))
         in (Some new_id,
             s\<lparr>transactions := transactions s @
                  [\<lparr>t_id = new_id, t_amount = amount, t_category_id = category_id,
                    t_date = date_str, t_description = description,
                    t_type = transaction_type\<rparr>]\<rparr>)))"

text \<open>
  \<^verbatim>\<open>Database.update_transaction\<close>: the same two checks, then a string date that does not
  parse raises a third ValueError; all three end in the result \<open>False\<close> with nothing
  written. The date has no default here; a \<^verbatim>\<open>None\<close> passes the checks and fails at
  \<^verbatim>\<open>date.strftime\<close> with an AttributeError, which the method does not catch.
\<close>

definition update_transaction ::
  "'d datetime_api \<Rightarrow> int \<Rightarrow> real \<Rightarrow> int option \<Rightarrow> string \<Rightarrow> 'd date_arg \<Rightarrow> string \<Rightarrow> db
     \<Rightarrow> py_error + bool \<times> db" where
  "update_transaction api transaction_id amount category_id description date transaction_type s =
     (if transaction_type \<notin> set [''income'', ''expense''] then Inr (False, s)
      else if amount \<le> 0 then Inr (False, s)
      else
        (let execute = (\<lambda>d.
               let date_str = strftime api d in
               Inr (length (filter (\<lambda>t. t_id t = transaction_id) (transactions s)) > 0,
                    s\<lparr>transactions :=
                        map (\<lambda>t. if t_id t = transaction_id
                                  then t\<lparr>t_amount := amount, t_category_id := category_id,
                                         t_date := date_str, t_description := description,
                                         t_type := transaction_type\<rparr>
                                  else t)
                          (transactions s)\<rparr>))
         in case date of
              DateStr str \<Rightarrow>
                (case strptime api str of None \<Rightarrow> Inr (False, s) | Some d \<Rightarrow> execute d)
            | DateObj d \<Rightarrow> execute d
            | NoDate \<Rightarrow> Inl AttributeError))"

section \<open>Transaction repository: the balance\<close>

text \<open>SQL's \<^verbatim>\<open>SUM\<close> over the selected rows: NULL when there is no row.\<close>

definition sql_sum :: "real list \<Rightarrow> real option" where
  "sql_sum xs = (if xs = [] then None else Some (sum_list xs))"

text \<open>\<^verbatim>\<open>Database.get_balance\<close>: two SUM queries, each NULL replaced by 0.\<close>

definition get_balance :: "db \<Rightarrow> real" where
  "get_balance s =
     (let income_row = sql_sum (map t_amount (filter (\<lambda>t. t_type t = ''income'') (transactions s)));
          total_income = (case income_row of Some v \<Rightarrow> v | None \<Rightarrow> 0);
          expense_row = sql_sum (map t_amount (filter (\<lambda>t. t_type t = ''expense'') (transactions s)));
          total_expense = (case expense_row of Some v \<Rightarrow> v | None \<Rightarrow> 0)
      in total_income - total_expense)"

section \<open>Transaction repository: reads\<close>

text \<open>
  The dictionary built for one row of a SELECT over transactions joined with categories:
  the columns of the transaction and the category's name and color, NULL (\<open>None\<close>)
  where the join found no category.
\<close>

record transaction_row =
  r_id :: int
  r_amount :: real
  r_category_id :: "int option"
  r_category_name :: "string option"
  r_category_color :: "string option"
  r_date :: string
  r_description :: string
  r_type :: string

text \<open>
  \<^verbatim>\<open>FROM transactions t LEFT JOIN categories c ON t.category_id = c.id\<close>: every transaction
  with each category of its id, or once with no category when there is none (a NULL
  \<^verbatim>\<open>category_id\<close> equals no id).
\<close>

definition left_join :: "transaction list \<Rightarrow> category list \<Rightarrow> (transaction \<times> category option) list" where
  "left_join ts cs =
     concat (map (\<lambda>t. let ms = filter (\<lambda>c. Some (c_id c) = t_category_id t) cs
                        in if ms = [] then [(t, None)] else map (\<lambda>c. (t, Some c)) ms) ts)"

text \<open>
  \<^verbatim>\<open>ORDER BY key DESC\<close>, as an insertion sort. SQL leaves the order of rows with equal keys
  open; here they keep the order they had.
\<close>

fun insert_desc :: "('a \<Rightarrow> 'k::linorder) \<Rightarrow> 'a \<Rightarrow> 'a list \<Rightarrow> 'a list" where
  "insert_desc f x [] = [x]"
| "insert_desc f x (y # ys) = (if f y \<le> f x then x # y # ys else y # insert_desc f x ys)"

definition order_by_desc :: "('a \<Rightarrow> 'k::linorder) \<Rightarrow> 'a list \<Rightarrow> 'a list" where
  "order_by_desc f xs = foldr (insert_desc f) xs []"

text \<open>
  The select list \<^verbatim>\<open>t.*, c.name as category_name, c.color as category_color\<close>, copied
  into a dictionary field by field, as \<^verbatim>\<open>get_transaction_by_id\<close> and
  \<^verbatim>\<open>get_transactions_by_category\<close> do.
\<close>

definition select_row :: "transaction \<times> category option \<Rightarrow> transaction_row" where
  "select_row = (\<lambda>(t, c).
     \<lparr>r_id = t_id t, r_amount = t_amount t, r_category_id = t_category_id t,
      r_category_name = map_option c_name c, r_category_color = map_option c_color c,
      r_date = t_date t, r_description = t_description t, r_type = t_type t\<rparr>)"

text \<open>
  The label that stands for a missing category, a Russian phrase for "no category", as
  its UTF-8 bytes, and the default gray.
\<close>

definition uncategorized :: string where
  "uncategorized =
     [CHR 0xD0, CHR 0x91, CHR 0xD0, CHR 0xB5, CHR 0xD0, CHR 0xB7, CHR 0x20, CHR 0xD0, CHR 0xBA,
      CHR 0xD0, CHR 0xB0, CHR 0xD1, CHR 0x82, CHR 0xD0, CHR 0xB5, CHR 0xD0, CHR 0xB3, CHR 0xD0,
      CHR 0xBE, CHR 0xD1, CHR 0x80, CHR 0xD0, CHR 0xB8, CHR 0xD0, CHR 0xB8]"

definition default_color :: string where
  "default_color = ''#607D8B''"

text \<open>
  \<^verbatim>\<open>row['category_name'] if row['category_name'] else <label>\<close>: Python's truth test, so
  an empty string is replaced like a NULL.
\<close>

definition or_default :: "string option \<Rightarrow> string \<Rightarrow> string" where
  "or_default v dflt = (case v of None \<Rightarrow> dflt | Some x \<Rightarrow> if x \<noteq> [] then x else dflt)"

text \<open>
  The dictionary that \<^verbatim>\<open>get_all_transactions\<close>, \<^verbatim>\<open>get_transactions_by_type\<close> and
  \<^verbatim>\<open>get_transactions_by_date_range\<close> build for a row: name and color with their defaults.
\<close>

definition display_row :: "transaction \<times> category option \<Rightarrow> transaction_row" where
  "display_row jr =
     (let row = select_row jr in
      row\<lparr>r_category_name := Some (or_default (r_category_name row) uncategorized),
          r_category_color := Some (or_default (r_category_color row) default_color)\<rparr>)"

definition get_transaction_by_id :: "int \<Rightarrow> db \<Rightarrow> transaction_row option" where
  "get_transaction_by_id transaction_id s =
     (case filter (\<lambda>(t, c). t_id t = transaction_id) (left_join (transactions s) (categories s)) of
        [] \<Rightarrow> None
      | row # _ \<Rightarrow> Some (select_row row))"

definition get_all_transactions :: "db \<Rightarrow> transaction_row list" where
  "get_all_transactions s =
     map display_row (order_by_desc (\<lambda>(t, c). t_date t) (left_join (transactions s) (categories s)))"

definition get_transactions_by_type :: "string \<Rightarrow> db \<Rightarrow> transaction_row list" where
  "get_transactions_by_type transaction_type s =
     map display_row
       (order_by_desc (\<lambda>(t, c). t_date t)
          (filter (\<lambda>(t, c). t_type t = transaction_type)
             (left_join (transactions s) (categories s))))"

text \<open>
  \<^verbatim>\<open>get_transactions_by_date_range\<close>: a datetime bound is formatted, a missing end is the
  clock's date, and \<^verbatim>\<open>BETWEEN\<close> compares the date strings. A start that is \<^verbatim>\<open>None\<close>
  reaches the statement as NULL, and no row is between NULL and anything.
\<close>

definition get_transactions_by_date_range ::
  "'d datetime_api \<Rightarrow> 'd date_arg \<Rightarrow> 'd date_arg \<Rightarrow> db \<Rightarrow> transaction_row list" where
  "get_transactions_by_date_range api start_date end_date s =
     (let start_param = (case start_date of
                           DateObj d \<Rightarrow> Some (strftime api d)
                         | DateStr str \<Rightarrow> Some str
                         | NoDate \<Rightarrow> None);
          end_param = (case end_date of
                         NoDate \<Rightarrow> strftime api (now api)
                       | DateObj d \<Rightarrow> strftime api d
                       | DateStr str \<Rightarrow> str)
      in map display_row
           (order_by_desc (\<lambda>(t, c). t_date t)
              (filter (\<lambda>(t, c). case start_param of
                                   None \<Rightarrow> False
                                 | Some lo \<Rightarrow> lo \<le> t_date t \<and> t_date t \<le> end_param)
                 (left_join (transactions s) (categories s)))))"

text \<open>
  \<^verbatim>\<open>get_transactions_by_category\<close>: the same join and order, but the loop copies
  \<^verbatim>\<open>row['category_name']\<close> and \<^verbatim>\<open>row['category_color']\<close> as they are.
\<close>

definition get_transactions_by_category :: "int \<Rightarrow> db \<Rightarrow> transaction_row list" where
  "get_transactions_by_category category_id s =
     map select_row
       (order_by_desc (\<lambda>(t, c). t_date t)
          (filter (\<lambda>(t, c). t_category_id t = Some category_id)
             (left_join (transactions s) (categories s))))"

section \<open>Transaction repository: aggregates\<close>

text \<open>
  The optional date bounds shared by the three aggregate queries. The source tests the
  arguments for truth, so an empty string counts as no bound; a datetime is formatted.
\<close>

definition truthy :: "'d date_arg \<Rightarrow> bool" where
  "truthy a = (case a of NoDate \<Rightarrow> False | DateStr str \<Rightarrow> str \<noteq> [] | DateObj d \<Rightarrow> True)"

definition date_param :: "'d datetime_api \<Rightarrow> 'd date_arg \<Rightarrow> string" where
  "date_param api a = (case a of DateObj d \<Rightarrow> strftime api d | DateStr str \<Rightarrow> str | NoDate \<Rightarrow> [])"

definition date_condition :: "'d datetime_api \<Rightarrow> 'd date_arg \<Rightarrow> 'd date_arg \<Rightarrow> string \<Rightarrow> bool" where
  "date_condition api start_date end_date date =
     (if truthy start_date \<or> truthy end_date then
        (if truthy start_date \<and> truthy end_date then
           date_param api start_date \<le> date \<and> date \<le> date_param api end_date
         else if truthy start_date then date_param api start_date \<le> date
         else date \<le> date_param api end_date)
      else True)"

text \<open>
  The optional bounds as the specification has them, for stating the properties of the
  aggregates: a bound that is given (a datetime, formatted, or a string that is not
  empty) limits the date on its side, in the order of strings, and a bound that is not
  given limits nothing.
\<close>

abbreviation bound_of :: "'d datetime_api \<Rightarrow> 'd date_arg \<Rightarrow> string option" where
  "bound_of api a \<equiv>
     (case a of
        NoDate \<Rightarrow> None
      | DateStr str \<Rightarrow> (if str = [] then None else Some str)
      | DateObj d \<Rightarrow> Some (strftime api d))"

abbreviation within_bounds :: "'d datetime_api \<Rightarrow> 'd date_arg \<Rightarrow> 'd date_arg \<Rightarrow> string \<Rightarrow> bool" where
  "within_bounds api start_date end_date date \<equiv>
     (case bound_of api start_date of None \<Rightarrow> True | Some lo \<Rightarrow> lo \<le> date)
     \<and> (case bound_of api end_date of None \<Rightarrow> True | Some hi \<Rightarrow> date \<le> hi)"

text \<open>
  \<^verbatim>\<open>SELECT key, SUM(val) ... GROUP BY key\<close>: one row per key that occurs, with the sum over
  the rows of that key.
\<close>

definition group_by_sum :: "('r \<Rightarrow> 'k) \<Rightarrow> ('r \<Rightarrow> real) \<Rightarrow> 'r list \<Rightarrow> ('k \<times> real) list" where
  "group_by_sum key val rows =
     map (\<lambda>k. (k, sum_list (map val (filter (\<lambda>r. key r = k) rows)))) (remdups (map key rows))"

record category_total =
  ct_category_id :: int
  ct_category_name :: string
  ct_category_color :: string
  ct_total :: real

text \<open>
  The grouping columns of a joined row: \<^verbatim>\<open>COALESCE(c.id, 0)\<close>, and \<^verbatim>\<open>c.name\<close> and
  \<^verbatim>\<open>c.color\<close> with the label and the gray as their \<^verbatim>\<open>COALESCE\<close> defaults.
\<close>

definition category_key :: "transaction \<times> category option \<Rightarrow> int \<times> string \<times> string" where
  "category_key = (\<lambda>(t, c). case c of
                              None \<Rightarrow> (0, uncategorized, default_color)
                            | Some cat \<Rightarrow> (c_id cat, c_name cat, c_color cat))"

text \<open>
  For stating the properties of the totals: the (category id, name, color) of a returned
  record, and the group of a transaction as the specification has it, which is the
  category that has the transaction's \<^verbatim>\<open>category_id\<close>, or the synthetic group of id 0 with
  the label and the gray when the \<^verbatim>\<open>category_id\<close> is null or no category has it.
\<close>

abbreviation total_key :: "category_total \<Rightarrow> int \<times> string \<times> string" where
  "total_key r \<equiv> (ct_category_id r, ct_category_name r, ct_category_color r)"

abbreviation category_group :: "db \<Rightarrow> transaction \<Rightarrow> int \<times> string \<times> string" where
  "category_group s t \<equiv>
     (case t_category_id t of
        None \<Rightarrow> (0, uncategorized, default_color)
      | Some i \<Rightarrow>
          (case find (\<lambda>c. c_id c = i) (categories s) of
             None \<Rightarrow> (0, uncategorized, default_color)
           | Some c \<Rightarrow> (c_id c, c_name c, c_color c)))"

text \<open>
  \<^verbatim>\<open>get_expenses_by_category\<close> and \<^verbatim>\<open>get_income_by_category\<close> are the same text up to the
  literal in \<^verbatim>\<open>WHERE t.type = ...\<close>; \<open>sum_by_category\<close> is that text with the literal as
  an argument, and \<open>category_query_rows\<close> the joined rows that pass its \<^verbatim>\<open>WHERE\<close>: the
  rows of the type, within the date bounds.
\<close>

definition category_query_rows ::
  "string \<Rightarrow> 'd datetime_api \<Rightarrow> 'd date_arg \<Rightarrow> 'd date_arg \<Rightarrow> db
     \<Rightarrow> (transaction \<times> category option) list" where
  "category_query_rows type_literal api start_date end_date s =
     filter (\<lambda>(t, c). t_type t = type_literal \<and> date_condition api start_date end_date (t_date t))
       (left_join (transactions s) (categories s))"

definition sum_by_category ::
  "string \<Rightarrow> 'd datetime_api \<Rightarrow> 'd date_arg \<Rightarrow> 'd date_arg \<Rightarrow> db \<Rightarrow> category_total list" where
  "sum_by_category type_literal api start_date end_date s =
     map (\<lambda>((cid, name, color), v).
            \<lparr>ct_category_id = cid, ct_category_name = name, ct_category_color = color,
             ct_total = v\<rparr>)
       (order_by_desc snd
          (group_by_sum category_key (\<lambda>(t, c). t_amount t)
             (category_query_rows type_literal api start_date end_date s)))"

definition get_expenses_by_category ::
  "'d datetime_api \<Rightarrow> 'd date_arg \<Rightarrow> 'd date_arg \<Rightarrow> db \<Rightarrow> category_total list" where
  "get_expenses_by_category = sum_by_category ''expense''"

definition get_income_by_category ::
  "'d datetime_api \<Rightarrow> 'd date_arg \<Rightarrow> 'd date_arg \<Rightarrow> db \<Rightarrow> category_total list" where
  "get_income_by_category = sum_by_category ''income''"

text \<open>
  What the specification asks of the totals by category for a type and optional bounds:
  the records are ordered by total, largest first; no two records have the same
  (category id, name, color); the records stand for exactly the groups of the
  transactions of the type within the bounds; and the total of a record is the sum of
  the amounts of these transactions in its group.
\<close>

abbreviation category_totals_of ::
  "category_total list \<Rightarrow> string \<Rightarrow> 'd datetime_api \<Rightarrow> 'd date_arg \<Rightarrow> 'd date_arg \<Rightarrow> db
     \<Rightarrow> bool" where
  "category_totals_of res ty api start_date end_date s \<equiv>
     sorted_wrt (\<lambda>a b. ct_total b \<le> ct_total a) res
     \<and> distinct (map total_key res)
     \<and> set (map total_key res)
         = category_group s `
             set (filter (\<lambda>t. t_type t = ty \<and> within_bounds api start_date end_date (t_date t))
                    (transactions s))
     \<and> (\<forall>r \<in> set res.
           ct_total r
           = (\<Sum>t \<leftarrow> filter (\<lambda>t. t_type t = ty
                                  \<and> within_bounds api start_date end_date (t_date t)
                                  \<and> category_group s t = total_key r)
                           (transactions s). t_amount t))"

text \<open>
  A record of \<^verbatim>\<open>get_transactions_by_month\<close>. Its month is what the query returned as
  \<^verbatim>\<open>strftime('%Y-%m', t.date)\<close>: a string, or \<^verbatim>\<open>None\<close> for SQL's NULL.
\<close>

record month_record =
  m_month :: "string option"
  m_income :: real
  m_expense :: real
  m_balance :: real

text \<open>
  \<^verbatim>\<open>monthly_data[month][transaction_type] = total\<close> on the four-field dictionary of a
  month. Both writers store \<^verbatim>\<open>income\<close> or \<^verbatim>\<open>expense\<close> only; a row of another type would
  add a key to the dictionary, which this record does not hold, and the record is left
  as it is.
\<close>

definition set_type_total :: "string \<Rightarrow> real \<Rightarrow> month_record \<Rightarrow> month_record" where
  "set_type_total transaction_type v r =
     (if transaction_type = ''income'' then r\<lparr>m_income := v\<rparr>
      else if transaction_type = ''expense'' then r\<lparr>m_expense := v\<rparr>
      else r)"

text \<open>
  The body of the loop over the rows (month, type, total) of the query.
  \<^verbatim>\<open>monthly_data\<close> is a dictionary in insertion order, here a list of (month, record)
  pairs with one pair per month. A month not yet in it gets a record of zeros; then the
  record of the row's month is updated in place: the total is stored under the row's
  type and the balance recomputed.
\<close>

definition new_month_record :: "string option \<Rightarrow> month_record" where
  "new_month_record month = \<lparr>m_month = month, m_income = 0, m_expense = 0, m_balance = 0\<rparr>"

definition update_month_record :: "string \<Rightarrow> real \<Rightarrow> month_record \<Rightarrow> month_record" where
  "update_month_record transaction_type v r =
     (let r1 = set_type_total transaction_type v r
      in r1\<lparr>m_balance := m_income r1 - m_expense r1\<rparr>)"

definition month_row_step ::
  "(string option \<times> string) \<times> real \<Rightarrow> (string option \<times> month_record) list
     \<Rightarrow> (string option \<times> month_record) list" where
  "month_row_step = (\<lambda>((month, transaction_type), v) monthly_data.
     (let monthly_data1 =
            (if month \<notin> fst ` set monthly_data
             then monthly_data @ [(month, new_month_record month)]
             else monthly_data)
      in map (\<lambda>(k, r). if k = month then (k, update_month_record transaction_type v r) else (k, r))
           monthly_data1))"

fun fold_month_rows ::
  "((string option \<times> string) \<times> real) list \<Rightarrow> (string option \<times> month_record) list
     \<Rightarrow> (string option \<times> month_record) list" where
  "fold_month_rows [] monthly_data = monthly_data"
| "fold_month_rows (row # rows) monthly_data = fold_month_rows rows (month_row_step row monthly_data)"

text \<open>
  What the loop keeps true of every pair in \<^verbatim>\<open>monthly_data\<close>: the record's month is its
  key and its balance is its income minus its expense.
\<close>

definition month_ok :: "string option \<times> month_record \<Rightarrow> bool" where
  "month_ok = (\<lambda>(k, r). m_month r = k \<and> m_balance r = m_income r - m_expense r)"

text \<open>
  The query of \<^verbatim>\<open>get_transactions_by_month\<close>: the transactions within the date bounds,
  grouped by (month, type) with the sum of the amounts, ordered by month. \<open>sql_month\<close> is
  SQLite's \<^verbatim>\<open>strftime('%Y-%m', _)\<close>; in \<^verbatim>\<open>ORDER BY month ASC\<close> a NULL comes first, as \<open>None\<close>
  does in the order of options.
\<close>

definition month_query_rows ::
  "'d datetime_api \<Rightarrow> 'd date_arg \<Rightarrow> 'd date_arg \<Rightarrow> db \<Rightarrow> transaction list" where
  "month_query_rows api start_date end_date s =
     filter (\<lambda>t. date_condition api start_date end_date (t_date t)) (transactions s)"

definition month_query ::
  "(string \<Rightarrow> string option) \<Rightarrow> 'd datetime_api \<Rightarrow> 'd date_arg \<Rightarrow> 'd date_arg \<Rightarrow> db
     \<Rightarrow> ((string option \<times> string) \<times> real) list" where
  "month_query sql_month api start_date end_date s =
     sort_key (\<lambda>((month, ty), v). month)
       (group_by_sum (\<lambda>t. (sql_month (t_date t), t_type t)) t_amount
          (month_query_rows api start_date end_date s))"

text \<open>
  \<^verbatim>\<open>result.sort(key=lambda x: x['month'])\<close>: Python's sort is stable, as \<open>sort_key\<close> is,
  and compares the keys of a list of two or more records. Comparing \<^verbatim>\<open>None\<close> with a
  string (or with \<^verbatim>\<open>None\<close>) raises a TypeError, which the method does not catch; a list of
  fewer than two records is returned without a comparison.
\<close>

definition sort_by_month :: "month_record list \<Rightarrow> py_error + month_record list" where
  "sort_by_month result =
     (if 2 \<le> length result \<and> None \<in> set (map m_month result) then Inl TypeError
      else Inr (sort_key m_month result))"

text \<open>
  \<^verbatim>\<open>get_transactions_by_month\<close>: the loop folds the rows of the query, and the values of
  the dictionary are sorted by month.
\<close>

definition get_transactions_by_month ::
  "(string \<Rightarrow> string option) \<Rightarrow> 'd datetime_api \<Rightarrow> 'd date_arg \<Rightarrow> 'd date_arg \<Rightarrow> db
     \<Rightarrow> py_error + month_record list" where
  "get_transactions_by_month sql_month api start_date end_date s =
     (let monthly_data = fold_month_rows (month_query sql_month api start_date end_date s) [];
          result = map snd monthly_data
      in sort_by_month result)"

section \<open>Text rendering of a report\<close>

text \<open>
  What \<^verbatim>\<open>ReportGenerator.generate_text_report\<close> reads of a report for its two category
  sections: the two grand totals and the two dictionaries from category name to amount,
  in insertion order.
\<close>

record report =
  total_income :: real
  total_expense :: real
  income_by_category :: "(string \<times> real) list"
  expenses_by_category :: "(string \<times> real) list"

text \<open>Python's \<^verbatim>\<open>/\<close> on numbers raises on a zero divisor.\<close>

definition py_div :: "real \<Rightarrow> real \<Rightarrow> py_error + real" where
  "py_div a b = (if b = 0 then Inl ZeroDivisionError else Inr (a / b))"

text \<open>
  \<^verbatim>\<open>amount / report['total_income'] * 100 if report['total_income'] > 0 else 0\<close>, and the
  same expression with \<^verbatim>\<open>total_expense\<close>.
\<close>

definition percentage :: "real \<Rightarrow> real \<Rightarrow> py_error + real" where
  "percentage amount grand_total =
     (if grand_total > 0 then
        (case py_div amount grand_total of Inl e \<Rightarrow> Inl e | Inr q \<Rightarrow> Inr (q * 100))
      else Inr 0)"

text \<open>
  The loop over one dictionary: a line (category, amount, percentage) per entry; an
  exception in the loop ends the rendering.
\<close>

fun category_lines :: "real \<Rightarrow> (string \<times> real) list \<Rightarrow> py_error + (string \<times> real \<times> real) list" where
  "category_lines grand_total [] = Inr []"
| "category_lines grand_total ((category, amount) # items) =
     (case percentage amount grand_total of
        Inl e \<Rightarrow> Inl e
      | Inr p \<Rightarrow>
          (case category_lines grand_total items of
             Inl e \<Rightarrow> Inl e
           | Inr ls \<Rightarrow> Inr ((category, amount, p) # ls)))"

text \<open>A section is the "no data" sentence for an empty dictionary, else its lines.\<close>

datatype section_body = NoData | Lines "(string \<times> real \<times> real) list"

definition render_section :: "real \<Rightarrow> (string \<times> real) list \<Rightarrow> py_error + section_body" where
  "render_section grand_total by_category =
     (if by_category \<noteq> [] then
        (case category_lines grand_total by_category of Inl e \<Rightarrow> Inl e | Inr ls \<Rightarrow> Inr (Lines ls))
      else Inr NoData)"

text \<open>
  \<^verbatim>\<open>generate_text_report\<close>, as the content of its income section and of its expense section,
  in this order. The title, the overall statistics, the month block and the layout of
  the numbers (\<^verbatim>\<open>:.2f\<close>, \<^verbatim>\<open>:.1f\<close>) are not modelled.
\<close>

definition generate_text_report :: "report \<Rightarrow> py_error + section_body \<times> section_body" where
  "generate_text_report r =
     (case render_section (total_income r) (income_by_category r) of
        Inl e \<Rightarrow> Inl e
      | Inr income_section \<Rightarrow>
          (case render_section (total_expense r) (expenses_by_category r) of
             Inl e \<Rightarrow> Inl e
           | Inr expense_section \<Rightarrow> Inr (income_section, expense_section)))"

section \<open>A store for examples\<close>

text \<open>
  Two categories and three transactions: income 1000 on 2024-01-05 under Salary,
  expense 300 on 2024-01-10 and expense 200 on 2024-02-01 under Food.
\<close>

definition example_db :: db where
  "example_db =
     \<lparr>categories =
        [\<lparr>c_id = 1, c_name = ''Salary'', c_color = ''#4CAF50'', c_type = ''income''\<rparr>,
         \<lparr>c_id = 2, c_name = ''Food'', c_color = ''#F44336'', c_type = ''expense''\<rparr>],
      transactions =
        [\<lparr>t_id = 1, t_amount = 1000, t_category_id = Some 1, t_date = ''2024-01-05'',
          t_description = [], t_type = ''income''\<rparr>,
         \<lparr>t_id = 2, t_amount = 300, t_category_id = Some 2, t_date = ''2024-01-10'',
          t_description = [], t_type = ''expense''\<rparr>,
         \<lparr>t_id = 3, t_amount = 200, t_category_id = Some 2, t_date = ''2024-02-01'',
          t_description = [], t_type = ''expense''\<rparr>]\<rparr>"

section \<open>Validation of a new transaction\<close>

text \<open>
  C2. Whenever the amount is not positive or the type is neither \<^verbatim>\<open>income\<close> nor
  \<^verbatim>\<open>expense\<close>, \<^verbatim>\<open>add_transaction\<close> returns no identifier and the store after the call is
  the store before it: the same transactions, hence the same number of rows.
\<close>

theorem add_transaction_rejects_invalid:
  assumes "amount \<le> 0 \<or> transaction_type \<notin> {''income'', ''expense''}"
  shows "add_transaction api amount category_id description transaction_type date s = (None, s)"
  using assms by (auto simp: add_transaction_def)

theorem add_transaction_rejects_invalid_witness:
  "((-5::real) \<le> 0 \<or> ''expense'' \<notin> {''income'', ''expense''}) \<and>
   add_transaction iso_api (-5) (Some 1) ''lunch'' ''expense'' NoDate
     \<lparr>categories = [], transactions = []\<rparr>
   = (None, \<lparr>categories = [], transactions = []\<rparr>)"
  using add_transaction_rejects_invalid
    [of "-5" "''expense''" iso_api "Some 1" "''lunch''" NoDate "\<lparr>categories = [], transactions = []\<rparr>"]
  by simp

section \<open>The balance\<close>

text \<open>
  C5. For every set of transactions, \<^verbatim>\<open>get_balance\<close> is the sum of the amounts of the
  income rows minus the sum of the amounts of the expense rows, where the sum over no
  rows is 0; on the empty table the balance is 0.
\<close>

theorem get_balance_is_income_minus_expense:
  "get_balance s =
     (\<Sum>t \<leftarrow> filter (\<lambda>t. t_type t = ''income'') (transactions s). t_amount t)
     - (\<Sum>t \<leftarrow> filter (\<lambda>t. t_type t = ''expense'') (transactions s). t_amount t)
   \<and> get_balance (s\<lparr>transactions := []\<rparr>) = 0"
  by (simp add: get_balance_def sql_sum_def)

section \<open>Identifiers and the join\<close>



lemma lastrowid_fresh: "lastrowid ids \<notin> set ids"
proof
  assume a: "lastrowid ids \<in> set ids"
  then have ne: "ids \<noteq> []" by auto
  have "lastrowid ids \<le> Max (set ids)" using a by (intro Max_ge) auto
  with ne show False by (simp add: lastrowid_def)
qed

lemma left_join_append: "left_join (ts @ us) cs = left_join ts cs @ left_join us cs"
  by (simp add: left_join_def)

lemma left_join_fst: "(t, c) \<in> set (left_join ts cs) \<Longrightarrow> t \<in> set ts"
  by (auto simp: left_join_def Let_def split: if_splits)

lemma left_join_miss:
  "\<forall>c\<in>set cs. Some (c_id c) \<noteq> t_category_id t \<Longrightarrow> left_join [t] cs = [(t, None)]"
  by (simp add: left_join_def filter_empty_conv)

section \<open>Malformed dates\<close>

text \<open>
  C3. Let a date string not parse. Then \<^verbatim>\<open>add_transaction\<close> with an otherwise valid input
  (positive amount, type \<^verbatim>\<open>income\<close> or \<^verbatim>\<open>expense\<close>) appends a row dated with the clock's
  date and returns its identifier, whereas \<^verbatim>\<open>update_transaction\<close> with the same string
  returns false and leaves the store as it was, whatever its other arguments.
\<close>

theorem malformed_date_add_defaults_update_rejects:
  assumes "strptime api str = None"
  shows "(0 < amount \<and> transaction_type \<in> {''income'', ''expense''} \<longrightarrow>
            add_transaction api amount category_id description transaction_type (DateStr str) s
            = (Some (lastrowid (map t_id (transactions s))),
               s\<lparr>transactions := transactions s @
                    [\<lparr>t_id = lastrowid (map t_id (transactions s)), t_amount = amount,
                      t_category_id = category_id, t_date = strftime api (now api),
                      t_description = description, t_type = transaction_type\<rparr>]\<rparr>))
         \<and> update_transaction api transaction_id amount category_id description (DateStr str)
              transaction_type s = Inr (False, s)"
  using assms by (auto simp: add_transaction_def update_transaction_def Let_def)

theorem malformed_date_add_defaults_update_rejects_witness:
  "strptime iso_api ''05.01.2024'' = None
   \<and> add_transaction iso_api 40 (Some 2) ''tea'' ''expense'' (DateStr ''05.01.2024'') example_db
     = (Some 4,
        example_db\<lparr>transactions := transactions example_db @
           [\<lparr>t_id = 4, t_amount = 40, t_category_id = Some 2, t_date = ''2024-06-15'',
             t_description = ''tea'', t_type = ''expense''\<rparr>]\<rparr>)
   \<and> update_transaction iso_api 2 40 (Some 2) ''tea'' (DateStr ''05.01.2024'') ''expense'' example_db
     = Inr (False, example_db)"
proof -
  have h: "strptime iso_api ''05.01.2024'' = None"
    by (simp add: iso_api_def iso_strptime_def)
  have ids: "lastrowid (map t_id (transactions example_db)) = 4"
    by (simp add: lastrowid_def example_db_def)
  have fmt: "strftime iso_api (now iso_api) = ''2024-06-15''"
    by (simp add: iso_api_def iso_strftime_def digit_char_def)
  show ?thesis
    using malformed_date_add_defaults_update_rejects
      [OF h, where amount = 40 and transaction_type = "''expense''" and category_id = "Some 2"
         and description = "''tea''" and s = example_db and transaction_id = 2]
    by (simp add: h ids fmt)
qed


section \<open>Deleting a category\<close>

text \<open>
  C4. \<^verbatim>\<open>delete_category\<close> keeps every transaction in its place: a transaction that
  referenced the category is the same row with \<^verbatim>\<open>category_id\<close> null, so the N referencing
  rows are still there and no row references the category any more; every other
  transaction is unchanged. The category rows of that id are gone and the others are
  kept, and the result is true exactly when the categories table changed. When no
  transaction referenced the category, the transactions table is the same as before.
\<close>

theorem delete_category_detaches_transactions:
  "case delete_category category_id s of (ok, s') \<Rightarrow>
     length (transactions s') = length (transactions s)
     \<and> (\<forall>i < length (transactions s).
           transactions s' ! i =
             (if t_category_id (transactions s ! i) = Some category_id
              then (transactions s ! i)\<lparr>t_category_id := None\<rparr>
              else transactions s ! i))
     \<and> length (filter (\<lambda>t. t_category_id t = None) (transactions s'))
         = length (filter (\<lambda>t. t_category_id t = None) (transactions s))
           + length (filter (\<lambda>t. t_category_id t = Some category_id) (transactions s))
     \<and> (\<forall>t \<in> set (transactions s'). t_category_id t \<noteq> Some category_id)
     \<and> categories s' = filter (\<lambda>c. c_id c \<noteq> category_id) (categories s)
     \<and> (ok \<longleftrightarrow> (\<exists>c \<in> set (categories s). c_id c = category_id))
     \<and> (ok \<longleftrightarrow> categories s' \<noteq> categories s)
     \<and> ((\<forall>t \<in> set (transactions s). t_category_id t \<noteq> Some category_id)
          \<longrightarrow> transactions s' = transactions s)"
proof -
  let ?f = "\<lambda>t. if t_category_id t = Some category_id then t\<lparr>t_category_id := None\<rparr> else t"
  let ?ts' = "map ?f (transactions s)"
  let ?cs' = "filter (\<lambda>c. c_id c \<noteq> category_id) (categories s)"
  let ?ok = "0 < length (filter (\<lambda>c. c_id c = category_id) (categories s))"
  have run: "delete_category category_id s = (?ok, s\<lparr>transactions := ?ts', categories := ?cs'\<rparr>)"
    by (simp add: delete_category_def Let_def)
  have nth: "\<forall>i < length (transactions s). ?ts' ! i = ?f (transactions s ! i)"
    by simp
  have cnt: "length (filter (\<lambda>t. t_category_id t = None) (map ?f ts))
             = length (filter (\<lambda>t. t_category_id t = None) ts)
               + length (filter (\<lambda>t. t_category_id t = Some category_id) ts)" for ts
    by (induction ts) auto
  have gone: "\<forall>t \<in> set ?ts'. t_category_id t \<noteq> Some category_id"
    by auto
  have ok: "?ok \<longleftrightarrow> (\<exists>c \<in> set (categories s). c_id c = category_id)"
    by (auto simp: filter_empty_conv)
  have removed: "(?cs' \<noteq> categories s) \<longleftrightarrow> (\<exists>c \<in> set (categories s). c_id c = category_id)"
    by (auto simp: filter_id_conv)
  have same: "(\<forall>t \<in> set (transactions s). t_category_id t \<noteq> Some category_id)
              \<longrightarrow> ?ts' = transactions s"
    by (simp add: map_idI)
  have tr: "transactions (s\<lparr>transactions := ?ts', categories := ?cs'\<rparr>) = ?ts'"
    and cs: "categories (s\<lparr>transactions := ?ts', categories := ?cs'\<rparr>) = ?cs'"
    by simp_all
  have len: "length ?ts' = length (transactions s)"
    by simp
  have changed: "?ok \<longleftrightarrow> ?cs' \<noteq> categories s"
    using ok removed by blast
  show ?thesis
    unfolding run prod.case tr cs
    using len nth cnt [of "transactions s"] gone ok changed same
    by (intro conjI) blast+
qed


theorem delete_category_detaches_transactions_witness:
  "Some 7 \<notin> t_category_id ` set (transactions example_db)
   \<and> \<not> fst (delete_category 7 example_db)
   \<and> transactions (snd (delete_category 7 example_db)) = transactions example_db
   \<and> fst (delete_category 2 example_db)
   \<and> map t_id (transactions (snd (delete_category 2 example_db))) = [1, 2, 3]
   \<and> length (filter (\<lambda>t. t_category_id t = None) (transactions (snd (delete_category 2 example_db)))) = 2"
proof -
  note t7 = delete_category_detaches_transactions
    [where category_id = 7 and s = example_db, unfolded case_prod_unfold]
  note t2 = delete_category_detaches_transactions
    [where category_id = 2 and s = example_db, unfolded case_prod_unfold]
  have h: "\<forall>t \<in> set (transactions example_db). t_category_id t \<noteq> Some 7"
    by (simp add: example_db_def)
  have no7: "\<not> (\<exists>c \<in> set (categories example_db). c_id c = 7)"
    and has2: "\<exists>c \<in> set (categories example_db). c_id c = 2"
    and n0: "length (filter (\<lambda>t. t_category_id t = None) (transactions example_db)) = 0"
    and n2: "length (filter (\<lambda>t. t_category_id t = Some 2) (transactions example_db)) = 2"
    by (simp_all add: example_db_def)
  have ids: "map t_id (transactions (snd (delete_category 2 example_db))) = [1, 2, 3]"
    by (simp add: delete_category_def example_db_def)
  have a: "\<not> fst (delete_category 7 example_db)"
    using t7 no7 by blast
  have b: "transactions (snd (delete_category 7 example_db)) = transactions example_db"
    using t7 h by blast
  have c: "fst (delete_category 2 example_db)"
    using t2 has2 by blast
  have d: "length (filter (\<lambda>t. t_category_id t = None) (transactions (snd (delete_category 2 example_db)))) = 2"
    using t2 n0 n2 by simp
  have h': "Some 7 \<notin> t_category_id ` set (transactions example_db)"
    using h by force
  show ?thesis
    using h' a b c ids d by blast
qed

section \<open>Dangling category references\<close>

text \<open>
  C10. With a positive amount and a valid type, \<^verbatim>\<open>add_transaction\<close> succeeds for a
  \<^verbatim>\<open>category_id\<close> that no category row has: it returns an identifier that no
  transaction had, appends one row that keeps the dangling \<^verbatim>\<open>category_id\<close> and leaves the
  categories alone, and reading the new transaction back through the left join gives a
  row whose category name and color are missing.
\<close>

theorem add_transaction_dangling_category:
  assumes "0 < amount" and "transaction_type \<in> {''income'', ''expense''}"
    and "\<forall>c \<in> set (categories s). c_id c \<noteq> cid"
  shows "\<exists>tid s' r.
           add_transaction api amount (Some cid) description transaction_type date s = (Some tid, s')
           \<and> tid \<notin> set (map t_id (transactions s))
           \<and> categories s' = categories s
           \<and> butlast (transactions s') = transactions s
           \<and> t_id (last (transactions s')) = tid
           \<and> t_category_id (last (transactions s')) = Some cid
           \<and> get_transaction_by_id tid s' = Some r
           \<and> r_category_id r = Some cid \<and> r_category_name r = None \<and> r_category_color r = None"
proof -
  define tid where "tid = lastrowid (map t_id (transactions s))"
  obtain s' where s': "add_transaction api amount (Some cid) description transaction_type date s = (Some tid, s')"
    using assms(1,2) by (auto simp: add_transaction_def Let_def tid_def)
  have eq: "transactions s' = transactions s @ [last (transactions s')]"
    and cat: "categories s' = categories s"
    and lid: "t_id (last (transactions s')) = tid"
    and lcid: "t_category_id (last (transactions s')) = Some cid"
    using s' assms(1,2) by (auto simp: add_transaction_def Let_def tid_def)
  have fresh: "tid \<notin> set (map t_id (transactions s))"
    unfolding tid_def by (rule lastrowid_fresh)
  have old: "filter (\<lambda>(t, c). t_id t = tid) (left_join (transactions s) (categories s)) = []"
    using fresh by (auto simp: filter_empty_conv dest: left_join_fst)
  have miss: "left_join [last (transactions s')] (categories s) = [(last (transactions s'), None)]"
    using assms(3) lcid by (intro left_join_miss) auto
  have "left_join (transactions s') (categories s')
        = left_join (transactions s) (categories s) @ [(last (transactions s'), None)]"
    by (subst eq) (simp add: left_join_append cat miss)
  then have "get_transaction_by_id tid s' = Some (select_row (last (transactions s'), None))"
    using old lid by (simp add: get_transaction_by_id_def)
  moreover have "butlast (transactions s') = transactions s"
    by (subst eq) simp
  ultimately show ?thesis
    using s' fresh cat lid lcid by (simp add: select_row_def)
qed

theorem add_transaction_dangling_category_witness:
  "(0::real) < 10 \<and> ''expense'' \<in> {''income'', ''expense''}
   \<and> 99 \<notin> c_id ` set (categories example_db)
   \<and> add_transaction iso_api 10 (Some 99) ''x'' ''expense'' (DateStr ''2024-03-05'') example_db
     = (Some 4,
        example_db\<lparr>transactions := transactions example_db @
           [\<lparr>t_id = 4, t_amount = 10, t_category_id = Some 99, t_date = ''2024-03-05'',
             t_description = ''x'', t_type = ''expense''\<rparr>]\<rparr>)
   \<and> get_transaction_by_id 4
       (example_db\<lparr>transactions := transactions example_db @
           [\<lparr>t_id = 4, t_amount = 10, t_category_id = Some 99, t_date = ''2024-03-05'',
             t_description = ''x'', t_type = ''expense''\<rparr>]\<rparr>)
     = Some \<lparr>r_id = 4, r_amount = 10, r_category_id = Some 99, r_category_name = None,
              r_category_color = None, r_date = ''2024-03-05'', r_description = ''x'',
              r_type = ''expense''\<rparr>"
proof -
  have h3: "\<forall>c \<in> set (categories example_db). c_id c \<noteq> 99"
    by (simp add: example_db_def)
  have ids: "lastrowid (map t_id (transactions example_db)) = 4"
    by (simp add: lastrowid_def example_db_def)
  have parse: "strptime iso_api ''2024-03-05'' = Some (2024, 3, 5)"
    by (simp add: iso_api_def iso_strptime_def digit_def)
  have fmt: "strftime iso_api (2024, 3, 5) = ''2024-03-05''"
    by (simp add: iso_api_def iso_strftime_def digit_char_def)
  have add: "add_transaction iso_api 10 (Some 99) ''x'' ''expense'' (DateStr ''2024-03-05'') example_db
     = (Some 4,
        example_db\<lparr>transactions := transactions example_db @
           [\<lparr>t_id = 4, t_amount = 10, t_category_id = Some 99, t_date = ''2024-03-05'',
             t_description = ''x'', t_type = ''expense''\<rparr>]\<rparr>)"
    by (simp add: add_transaction_def Let_def ids parse fmt)
  have get: "get_transaction_by_id 4
       (example_db\<lparr>transactions := transactions example_db @
           [\<lparr>t_id = 4, t_amount = 10, t_category_id = Some 99, t_date = ''2024-03-05'',
             t_description = ''x'', t_type = ''expense''\<rparr>]\<rparr>)
     = Some \<lparr>r_id = 4, r_amount = 10, r_category_id = Some 99, r_category_name = None,
              r_category_color = None, r_date = ''2024-03-05'', r_description = ''x'',
              r_type = ''expense''\<rparr>"
    by (simp add: get_transaction_by_id_def left_join_def select_row_def example_db_def)
  show ?thesis
    using add_transaction_dangling_category
      [OF _ _ h3, where amount = 10 and transaction_type = "''expense''" and api = iso_api
         and description = "''x''" and date = "DateStr ''2024-03-05''"]
    unfolding add get
    by (simp add: example_db_def)
qed


section \<open>One category per name and type\<close>

lemma find_append_None: "find P xs = None \<Longrightarrow> find P (xs @ ys) = find P ys"
  by (induction xs) (auto split: if_splits)

lemma distinct_map_count_le1:
  "distinct (map f xs) \<Longrightarrow> length (filter (\<lambda>x. f x = k) xs) \<le> 1"
proof (induction xs)
  case Nil
  then show ?case by simp
next
  case (Cons x xs)
  show ?case
  proof (cases "f x = k")
    case True
    with Cons.prems have "k \<notin> f ` set xs" by simp
    then have "\<forall>y \<in> set xs. f y \<noteq> k" by blast
    then have "filter (\<lambda>x. f x = k) xs = []" by (simp add: filter_empty_conv)
    with True show ?thesis by simp
  next
    case False
    with Cons show ?thesis by simp
  qed
qed

lemma find_append_Some: "find P xs = Some x \<Longrightarrow> find P (xs @ ys) = Some x"
  by (induction xs) auto

lemma categories_insert_category:
  "categories (insert_category (name, color, ty) s)
   = categories s @ [\<lparr>c_id = lastrowid (map c_id (categories s)), c_name = name,
                      c_color = color, c_type = ty\<rparr>]"
  by (simp add: insert_category_def)

lemma add_category_existing:
  assumes "\<exists>c \<in> set (categories s). c_name c = name \<and> c_type c = ty"
  shows "\<exists>c \<in> set (categories s). c_name c = name \<and> c_type c = ty
           \<and> add_category name color ty s = (Some (c_id c), s)"
proof -
  from assms obtain c where c: "find (\<lambda>c. c_name c = name \<and> c_type c = ty) (categories s) = Some c"
    by (cases "find (\<lambda>c. c_name c = name \<and> c_type c = ty) (categories s)")
       (auto simp: find_None_iff)
  then have "c \<in> set (categories s)" "c_name c = name \<and> c_type c = ty"
    by (auto simp: find_Some_iff)
  with c show ?thesis
    by (auto simp: add_category_def)
qed

lemma add_category_unique:
  assumes "name_type_unique s"
  shows "name_type_unique (snd (add_category name color ty s))"
proof (cases "find (\<lambda>c. c_name c = name \<and> c_type c = ty) (categories s)")
  case None
  then have "(name, ty) \<notin> set (map (\<lambda>c. (c_name c, c_type c)) (categories s))"
    by (auto simp: find_None_iff)
  with assms None show ?thesis
    by (simp add: add_category_def name_type_unique_def categories_insert_category)
next
  case (Some c)
  with assms show ?thesis by (simp add: add_category_def)
qed

lemma add_categories_unique:
  "name_type_unique s \<Longrightarrow> name_type_unique (add_categories calls s)"
  unfolding add_categories_def
  by (induction calls arbitrary: s) (auto simp: add_category_unique)

lemma unique_count:
  assumes "name_type_unique s"
  shows "length (filter (\<lambda>c. c_name c = n \<and> c_type c = t) (categories s)) \<le> 1"
  using distinct_map_count_le1 [of "\<lambda>c. (c_name c, c_type c)" "categories s" "(n, t)"] assms
  by (simp add: name_type_unique_def)

lemma first_match_add_category:
  assumes "find P (categories s) = Some c"
  shows "find P (categories (snd (add_category name color ty s))) = Some c"
  using assms
  by (auto simp: add_category_def categories_insert_category find_append_Some split: option.splits)

lemma first_match_add_categories:
  "find P (categories s) = Some c \<Longrightarrow> find P (categories (add_categories calls s)) = Some c"
  unfolding add_categories_def
  by (induction calls arbitrary: s) (auto simp: first_match_add_category)

lemma add_category_first_match:
  "\<exists>c. find (\<lambda>c. c_name c = name \<and> c_type c = ty) (categories (snd (add_category name color ty s))) = Some c
       \<and> fst (add_category name color ty s) = Some (c_id c)"
proof (cases "find (\<lambda>c. c_name c = name \<and> c_type c = ty) (categories s)")
  case None
  then show ?thesis
    by (simp add: add_category_def categories_insert_category find_append_None)
next
  case (Some c)
  then show ?thesis by (simp add: add_category_def)
qed

lemma init_unique: "name_type_unique (init_db new_file)"
  by (simp add: init_db_def new_file_def create_default_categories_def executemany_def
      insert_category_def expense_categories_def income_categories_def name_type_unique_def)


text \<open>
  C1. If a category with the given (name, type) exists, \<^verbatim>\<open>add_category\<close> returns the
  identifier of such a row and leaves the store as it is. So a store in which no two
  categories share a (name, type) still has, after any sequence of \<^verbatim>\<open>add_category\<close>
  calls, at most one row for every (name, type); the store that \<^verbatim>\<open>init_db\<close> makes of a new
  file is such a store. And once \<^verbatim>\<open>add_category\<close> has returned an identifier for a
  (name, type), every later call with that (name, type), after any further
  \<^verbatim>\<open>add_category\<close> calls and with any color, returns the same identifier.
\<close>

theorem add_category_one_row_per_name_type:
  "((\<exists>c \<in> set (categories s). c_name c = name \<and> c_type c = ty) \<longrightarrow>
      (\<exists>c \<in> set (categories s). c_name c = name \<and> c_type c = ty
          \<and> add_category name color ty s = (Some (c_id c), s)))
   \<and> (name_type_unique s \<longrightarrow>
        (\<forall>n t. length (filter (\<lambda>c. c_name c = n \<and> c_type c = t)
                         (categories (add_categories calls s))) \<le> 1))
   \<and> (\<forall>n t. length (filter (\<lambda>c. c_name c = n \<and> c_type c = t)
                      (categories (add_categories calls (init_db new_file)))) \<le> 1)
   \<and> (\<exists>i. fst (add_category name color ty s) = Some i
          \<and> fst (add_category name color' ty
                  (add_categories calls' (snd (add_category name color ty s)))) = Some i)"
proof -
  let ?P = "\<lambda>c. c_name c = name \<and> c_type c = ty"
  obtain c where c: "find ?P (categories (snd (add_category name color ty s))) = Some c"
    and i: "fst (add_category name color ty s) = Some (c_id c)"
    using add_category_first_match by blast
  have "find ?P (categories (add_categories calls' (snd (add_category name color ty s)))) = Some c"
    using c by (rule first_match_add_categories)
  then have "fst (add_category name color' ty
                (add_categories calls' (snd (add_category name color ty s)))) = Some (c_id c)"
    by (simp add: add_category_def)
  with i have again: "\<exists>i. fst (add_category name color ty s) = Some i
          \<and> fst (add_category name color' ty
                  (add_categories calls' (snd (add_category name color ty s)))) = Some i"
    by blast
  have kept: "name_type_unique s \<longrightarrow>
        (\<forall>n t. length (filter (\<lambda>c. c_name c = n \<and> c_type c = t)
                         (categories (add_categories calls s))) \<le> 1)"
    using unique_count add_categories_unique by blast
  have fresh: "\<forall>n t. length (filter (\<lambda>c. c_name c = n \<and> c_type c = t)
                      (categories (add_categories calls (init_db new_file)))) \<le> 1"
    using unique_count add_categories_unique init_unique by blast
  have existing: "(\<exists>c \<in> set (categories s). c_name c = name \<and> c_type c = ty) \<longrightarrow>
      (\<exists>c \<in> set (categories s). c_name c = name \<and> c_type c = ty
          \<and> add_category name color ty s = (Some (c_id c), s))"
    using add_category_existing by blast
  show ?thesis
    using existing kept fresh again by (intro conjI)
qed

theorem add_category_one_row_per_name_type_witness:
  "name_type_unique example_db
   \<and> add_category ''Food'' ''#000000'' ''expense'' example_db = (Some 2, example_db)
   \<and> map c_id (categories (add_categories
         [(''Food'', ''#000000'', ''expense''), (''Rent'', ''#111111'', ''expense''),
          (''Rent'', ''#222222'', ''expense'')] example_db)) = [1, 2, 3]
   \<and> length (filter (\<lambda>c. c_name c = ''Rent'' \<and> c_type c = ''expense'')
         (categories (add_categories
           [(''Food'', ''#000000'', ''expense''), (''Rent'', ''#111111'', ''expense''),
            (''Rent'', ''#222222'', ''expense'')] example_db))) \<le> 1
   \<and> fst (add_category ''Rent'' ''#111111'' ''expense'' example_db) = Some 3
   \<and> fst (add_category ''Rent'' ''#333333'' ''expense''
         (add_categories [(''Gifts'', ''#444444'', ''income'')]
            (snd (add_category ''Rent'' ''#111111'' ''expense'' example_db)))) = Some 3"
proof -
  have u: "name_type_unique example_db"
    by (simp add: name_type_unique_def example_db_def)
  have e: "\<exists>c \<in> set (categories example_db). c_name c = ''Food'' \<and> c_type c = ''expense''"
    by (simp add: example_db_def)
  have run: "map c_id (categories (add_categories
         [(''Food'', ''#000000'', ''expense''), (''Rent'', ''#111111'', ''expense''),
          (''Rent'', ''#222222'', ''expense'')] example_db)) = [1, 2, 3]"
    by (simp add: add_categories_def add_category_def insert_category_def lastrowid_def
        example_db_def)
  have first: "fst (add_category ''Rent'' ''#111111'' ''expense'' example_db) = Some 3"
    by (simp add: add_category_def insert_category_def lastrowid_def example_db_def)
  have food: "add_category ''Food'' ''#000000'' ''expense'' example_db = (Some 2, example_db)"
    by (simp add: add_category_def example_db_def)
  note t = add_category_one_row_per_name_type
    [where s = example_db and name = "''Rent''" and ty = "''expense''" and color = "''#111111''"
       and color' = "''#333333''"
       and calls = "[(''Food'', ''#000000'', ''expense''), (''Rent'', ''#111111'', ''expense''),
                     (''Rent'', ''#222222'', ''expense'')]"
       and calls' = "[(''Gifts'', ''#444444'', ''income'')]"]
  from t u have cnt: "length (filter (\<lambda>c. c_name c = ''Rent'' \<and> c_type c = ''expense'')
         (categories (add_categories
           [(''Food'', ''#000000'', ''expense''), (''Rent'', ''#111111'', ''expense''),
            (''Rent'', ''#222222'', ''expense'')] example_db))) \<le> 1"
    by blast
  from t first have again: "fst (add_category ''Rent'' ''#333333'' ''expense''
         (add_categories [(''Gifts'', ''#444444'', ''income'')]
            (snd (add_category ''Rent'' ''#111111'' ''expense'' example_db)))) = Some 3"
    by auto
  show ?thesis
    using u food run cnt first again by blast
qed

text \<open>
  The uniqueness is \<^verbatim>\<open>add_category\<close>'s alone: \<^verbatim>\<open>update_category\<close> renames a row without
  the check, and can give two rows one (name, type).
\<close>

lemma update_category_can_duplicate:
  "name_type_unique (snd (add_category ''Rent'' ''#111111'' ''expense'' example_db))
   \<and> fst (update_category 3 ''Food'' ''#111111''
          (snd (add_category ''Rent'' ''#111111'' ''expense'' example_db)))
   \<and> \<not> name_type_unique
         (snd (update_category 3 ''Food'' ''#111111''
            (snd (add_category ''Rent'' ''#111111'' ''expense'' example_db))))"
  by (simp add: update_category_def add_category_def insert_category_def lastrowid_def
      example_db_def name_type_unique_def)

section \<open>Listings\<close>

lemma mset_insert_desc: "mset (insert_desc f x xs) = add_mset x (mset xs)"
  by (induction xs) auto

lemma mset_order_by_desc: "mset (order_by_desc f xs) = mset xs"
  unfolding order_by_desc_def by (induction xs) (auto simp: mset_insert_desc)

lemma set_insert_desc: "set (insert_desc f x xs) = insert x (set xs)"
  by (induction xs) auto

lemma set_order_by_desc: "set (order_by_desc f xs) = set xs"
  unfolding order_by_desc_def by (induction xs) (auto simp: set_insert_desc)

lemma sorted_insert_desc:
  "sorted_wrt (\<lambda>a b. f b \<le> f a) xs \<Longrightarrow> sorted_wrt (\<lambda>a b. f b \<le> f a) (insert_desc f x xs)"
  by (induction xs) (auto simp: set_insert_desc)

lemma sorted_order_by_desc: "sorted_wrt (\<lambda>a b. f b \<le> f a) (order_by_desc f xs)"
  unfolding order_by_desc_def by (induction xs) (auto simp: sorted_insert_desc)

lemma r_date_display_row: "r_date (display_row jr) = t_date (fst jr)"
  by (cases jr) (simp add: display_row_def select_row_def)

lemma r_date_select_row: "r_date (select_row jr) = t_date (fst jr)"
  by (cases jr) (simp add: select_row_def)

lemma newest_first:
  assumes "\<And>jr. r_date (g jr) = t_date (fst jr)"
  shows "sorted_wrt (\<lambda>a b. r_date b \<le> r_date a) (map g (order_by_desc (\<lambda>(t, c). t_date t) rows))"
proof -
  have "sorted_wrt (\<lambda>a b. t_date (fst b) \<le> t_date (fst a)) (order_by_desc (\<lambda>(t, c). t_date t) rows)"
    using sorted_order_by_desc [of "\<lambda>(t, c). t_date t" rows]
    by (simp add: case_prod_unfold)
  then show ?thesis
    by (simp add: sorted_wrt_map assms)
qed

text \<open>
  What holds of the listings: all four are ordered newest date first, and the three that
  build their rows with \<open>display_row\<close> never return a missing or empty category name or
  color.
\<close>

lemma listings_newest_first:
  "sorted_wrt (\<lambda>a b. r_date b \<le> r_date a) (get_all_transactions s)"
  "sorted_wrt (\<lambda>a b. r_date b \<le> r_date a) (get_transactions_by_type ty s)"
  "sorted_wrt (\<lambda>a b. r_date b \<le> r_date a) (get_transactions_by_date_range api lo hi s)"
  "sorted_wrt (\<lambda>a b. r_date b \<le> r_date a) (get_transactions_by_category cid s)"
  unfolding get_all_transactions_def get_transactions_by_type_def
    get_transactions_by_date_range_def get_transactions_by_category_def Let_def
  by (rule newest_first, rule r_date_display_row r_date_select_row)+

lemma display_row_defaults:
  "r_category_name (display_row (t, None)) = Some uncategorized"
  "r_category_color (display_row (t, None)) = Some default_color"
  "c_name c \<noteq> [] \<Longrightarrow> r_category_name (display_row (t, Some c)) = Some (c_name c)"
  "c_color c \<noteq> [] \<Longrightarrow> r_category_color (display_row (t, Some c)) = Some (c_color c)"
  by (simp_all add: display_row_def select_row_def or_default_def)

text \<open>
  C8. The claim fails for \<^verbatim>\<open>get_transactions_by_category\<close>. After
  \<^verbatim>\<open>add_transaction(10, 99, "x", "expense", "2024-03-05")\<close> on the example store, which
  has no category 99, the listing by category 99 returns the new row with a missing
  category name and color, where \<^verbatim>\<open>get_all_transactions\<close> returns the same row with the
  label and the default gray.
\<close>

theorem get_transactions_by_category_no_defaults:
  "get_transactions_by_category 99
     (snd (add_transaction iso_api 10 (Some 99) ''x'' ''expense'' (DateStr ''2024-03-05'') example_db))
   = [\<lparr>r_id = 4, r_amount = 10, r_category_id = Some 99, r_category_name = None,
       r_category_color = None, r_date = ''2024-03-05'', r_description = ''x'',
       r_type = ''expense''\<rparr>]
   \<and> filter (\<lambda>r. r_category_id r = Some 99)
       (get_all_transactions
          (snd (add_transaction iso_api 10 (Some 99) ''x'' ''expense'' (DateStr ''2024-03-05'') example_db)))
   = [\<lparr>r_id = 4, r_amount = 10, r_category_id = Some 99, r_category_name = Some uncategorized,
       r_category_color = Some default_color, r_date = ''2024-03-05'', r_description = ''x'',
       r_type = ''expense''\<rparr>]"
proof -
  have ids: "lastrowid (map t_id (transactions example_db)) = 4"
    by (simp add: lastrowid_def example_db_def)
  have parse: "strptime iso_api ''2024-03-05'' = Some (2024, 3, 5)"
    by (simp add: iso_api_def iso_strptime_def digit_def)
  have fmt: "strftime iso_api (2024, 3, 5) = ''2024-03-05''"
    by (simp add: iso_api_def iso_strftime_def digit_char_def)
  have add: "snd (add_transaction iso_api 10 (Some 99) ''x'' ''expense'' (DateStr ''2024-03-05'') example_db)
     = example_db\<lparr>transactions := transactions example_db @
           [\<lparr>t_id = 4, t_amount = 10, t_category_id = Some 99, t_date = ''2024-03-05'',
             t_description = ''x'', t_type = ''expense''\<rparr>]\<rparr>"
    by (simp add: add_transaction_def Let_def ids parse fmt)
  show ?thesis
    unfolding add
    by (simp add: get_transactions_by_category_def get_all_transactions_def left_join_def
        order_by_desc_def select_row_def display_row_def or_default_def example_db_def
        uncategorized_def default_color_def)
qed

section \<open>The text report's percentages\<close>

lemma category_lines_total:
  "category_lines g items
   = Inr (map (\<lambda>(c, a). (c, a, if 0 < g then a / g * 100 else 0)) items)"
proof (induction items)
  case Nil
  show ?case by simp
next
  case (Cons item items)
  obtain c a where item: "item = (c, a)" by (cases item)
  have "percentage a g = Inr (if 0 < g then a / g * 100 else 0)"
    by (simp add: percentage_def py_div_def)
  with Cons item show ?case by simp
qed

text \<open>
  C9. The grand totals of a report are sums of amounts, and both writers admit positive
  amounts only, so let the two grand totals be not negative. Then the rendering never
  fails with a division by zero, and in each section the percentage of every category
  line is the category's amount divided by the section's grand total times 100, and 0
  when that grand total is 0.
\<close>

theorem generate_text_report_percentages:
  assumes "0 \<le> total_income r" and "0 \<le> total_expense r"
  shows "generate_text_report r =
     Inr (if income_by_category r \<noteq> []
          then Lines (map (\<lambda>(c, a). (c, a, if total_income r = 0 then 0
                                            else a / total_income r * 100))
                        (income_by_category r))
          else NoData,
          if expenses_by_category r \<noteq> []
          then Lines (map (\<lambda>(c, a). (c, a, if total_expense r = 0 then 0
                                            else a / total_expense r * 100))
                        (expenses_by_category r))
          else NoData)"
proof -
  have pos: "0 \<le> g \<Longrightarrow> (if 0 < g then a / g * 100 else 0) = (if g = 0 then 0 else a / g * 100)"
    for g a :: real
    by auto
  show ?thesis
    using assms
    by (simp add: generate_text_report_def render_section_def category_lines_total pos)
qed

theorem generate_text_report_percentages_witness:
  "(0::real) \<le> 0 \<and> (0::real) \<le> 500
   \<and> generate_text_report
       \<lparr>total_income = 0, total_expense = 500,
        income_by_category = [(''Salary'', 0)],
        expenses_by_category = [(''Food'', 300), (''Rent'', 200)]\<rparr>
     = Inr (Lines [(''Salary'', 0, 0)], Lines [(''Food'', 300, 60), (''Rent'', 200, 40)])"
  using generate_text_report_percentages
    [where r = "\<lparr>total_income = 0, total_expense = 500,
        income_by_category = [(''Salary'', 0)],
        expenses_by_category = [(''Food'', 300), (''Rent'', 200)]\<rparr>"]
  by simp

section \<open>Totals by category\<close>

lemma map_fst_group_by_sum: "map fst (group_by_sum key val rows) = remdups (map key rows)"
  by (simp add: group_by_sum_def comp_def)

lemma keys_group_by_sum: "fst ` set (group_by_sum key val rows) = key ` set rows"
  by (force simp: group_by_sum_def)

lemma group_by_sum_total:
  "(k, v) \<in> set (group_by_sum key val rows)
   \<Longrightarrow> k \<in> key ` set rows \<and> v = sum_list (map val (filter (\<lambda>r. key r = k) rows))"
  by (auto simp: group_by_sum_def)

lemma group_by_sum_map:
  "group_by_sum key val (map f xs) = group_by_sum (key \<circ> f) (val \<circ> f) xs"
  by (simp add: group_by_sum_def filter_map comp_def)

lemma distinct_map_order_by_desc:
  "distinct (map g (order_by_desc f xs)) = distinct (map g xs)"
proof -
  have "mset (map g (order_by_desc f xs)) = mset (map g xs)"
    by (simp add: mset_order_by_desc)
  then show ?thesis
    by (rule mset_eq_imp_distinct_iff)
qed

text \<open>With distinct keys, the rows of a key are the first one found, if any.\<close>

lemma filter_key_distinct:
  "distinct (map f xs)
   \<Longrightarrow> filter (\<lambda>x. f x = k) xs = (case find (\<lambda>x. f x = k) xs of None \<Rightarrow> [] | Some x \<Rightarrow> [x])"
proof (induction xs)
  case Nil
  show ?case by simp
next
  case (Cons x xs)
  show ?case
  proof (cases "f x = k")
    case True
    with Cons.prems have "k \<notin> f ` set xs" by simp
    then have "\<forall>y \<in> set xs. f y \<noteq> k" by blast
    then have "filter (\<lambda>x. f x = k) xs = []" by (simp add: filter_empty_conv)
    with True show ?thesis by simp
  next
    case False
    with Cons show ?thesis by simp
  qed
qed

text \<open>
  With distinct category ids, as the primary key makes them, the left join has one row
  for every transaction, with the category of the transaction's \<^verbatim>\<open>category_id\<close> if there
  is one.
\<close>

lemma left_join_distinct:
  assumes "distinct (map c_id cs)"
  shows "left_join ts cs
         = map (\<lambda>t. (t, case t_category_id t of
                           None \<Rightarrow> None
                         | Some i \<Rightarrow> find (\<lambda>c. c_id c = i) cs)) ts"
proof -
  have row: "(let ms = filter (\<lambda>c. Some (c_id c) = t_category_id t) cs
              in if ms = [] then [(t, None)] else map (\<lambda>c. (t, Some c)) ms)
             = [(t, case t_category_id t of None \<Rightarrow> None | Some i \<Rightarrow> find (\<lambda>c. c_id c = i) cs)]"
    for t
  proof (cases "t_category_id t")
    case None
    then show ?thesis by simp
  next
    case (Some i)
    have "filter (\<lambda>c. Some (c_id c) = Some i) cs = filter (\<lambda>c. c_id c = i) cs"
      by simp
    with Some filter_key_distinct [OF assms, of i] show ?thesis
      by (simp split: option.splits)
  qed
  show ?thesis
    unfolding left_join_def row by (induction ts) auto
qed

lemma date_condition_bounds:
  "date_condition api start_date end_date date = within_bounds api start_date end_date date"
  by (cases start_date; cases end_date)
     (auto simp: date_condition_def truthy_def date_param_def)


text \<open>
  The category ids are distinct in every store the repository makes: a new row takes an
  id that no row has, and renaming or deleting rows changes no id.
\<close>

lemma category_ids_stay_distinct:
  assumes "distinct (map c_id (categories s))"
  shows "distinct (map c_id (categories (snd (add_category name color ty s))))"
    and "distinct (map c_id (categories (snd (update_category cid name color s))))"
    and "distinct (map c_id (categories (snd (delete_category cid s))))"
proof -
  have fresh: "lastrowid (map c_id (categories s)) \<notin> set (map c_id (categories s))"
    by (rule lastrowid_fresh)
  with assms show "distinct (map c_id (categories (snd (add_category name color ty s))))"
    by (auto simp: add_category_def categories_insert_category split: option.splits)
  have same: "c_id \<circ> (\<lambda>c. if c_id c = cid then c\<lparr>c_name := name, c_color := color\<rparr> else c) = c_id"
    by auto
  from assms show "distinct (map c_id (categories (snd (update_category cid name color s))))"
    by (simp add: update_category_def same)
  from assms show "distinct (map c_id (categories (snd (delete_category cid s))))"
    by (simp add: delete_category_def Let_def distinct_map_filter)
qed

lemma sum_by_category_totals:
  assumes "distinct (map c_id (categories s))"
  shows "category_totals_of (sum_by_category ty api start_date end_date s) ty api start_date end_date s"
proof -
  let ?cat = "\<lambda>t. case t_category_id t of
                     None \<Rightarrow> None
                   | Some i \<Rightarrow> find (\<lambda>c. c_id c = i) (categories s)"
  let ?txs = "filter (\<lambda>t. t_type t = ty \<and> within_bounds api start_date end_date (t_date t))
                (transactions s)"
  have rows: "category_query_rows ty api start_date end_date s = map (\<lambda>t. (t, ?cat t)) ?txs"
    by (simp add: category_query_rows_def left_join_distinct [OF assms] filter_map comp_def
        date_condition_bounds)
  have key: "category_key (t, ?cat t) = category_group s t" for t
    by (simp add: category_key_def split: option.splits)
  let ?G = "group_by_sum (category_group s) t_amount ?txs"
  have G: "group_by_sum category_key (\<lambda>(t, c). t_amount t) (category_query_rows ty api start_date end_date s) = ?G"
    unfolding rows group_by_sum_map by (simp add: comp_def key)
  let ?mk = "\<lambda>((cid, name, color), v).
            \<lparr>ct_category_id = cid, ct_category_name = name, ct_category_color = color,
             ct_total = v\<rparr>"
  let ?res = "map ?mk (order_by_desc snd ?G)"
  have res: "sum_by_category ty api start_date end_date s = ?res"
    by (simp add: sum_by_category_def G)
  have mk_key: "total_key (?mk g) = fst g" and mk_tot: "ct_total (?mk g) = snd g" for g
    by (cases g; auto)+
  have keys: "map total_key ?res = map fst (order_by_desc snd ?G)"
    by (simp add: comp_def mk_key)
  have sorted: "sorted_wrt (\<lambda>a b. ct_total b \<le> ct_total a) ?res"
    using sorted_order_by_desc [of snd ?G]
    by (simp add: sorted_wrt_map mk_tot)
  have dist: "distinct (map total_key ?res)"
    unfolding keys by (simp add: distinct_map_order_by_desc map_fst_group_by_sum)
  have set_keys: "set (map total_key ?res) = category_group s ` set ?txs"
    unfolding keys by (simp add: set_order_by_desc keys_group_by_sum)
  have totals: "\<forall>r \<in> set ?res.
           ct_total r
           = (\<Sum>t \<leftarrow> filter (\<lambda>t. t_type t = ty
                                  \<and> within_bounds api start_date end_date (t_date t)
                                  \<and> category_group s t = total_key r)
                           (transactions s). t_amount t)"
  proof
    fix r assume "r \<in> set ?res"
    then obtain g where g: "g \<in> set ?G" and r: "r = ?mk g"
      by (auto simp: set_order_by_desc)
    from g have "(fst g, snd g) \<in> set ?G"
      by simp
    then have "snd g = sum_list (map t_amount (filter (\<lambda>t. category_group s t = fst g) ?txs))"
      by (rule group_by_sum_total [THEN conjunct2])
    also have "filter (\<lambda>t. category_group s t = fst g) ?txs
               = filter (\<lambda>t. t_type t = ty
                              \<and> within_bounds api start_date end_date (t_date t)
                              \<and> category_group s t = fst g)
                   (transactions s)"
      by (simp add: conj_commute conj_left_commute cong: conj_cong)
    finally show "ct_total r
           = (\<Sum>t \<leftarrow> filter (\<lambda>t. t_type t = ty
                                  \<and> within_bounds api start_date end_date (t_date t)
                                  \<and> category_group s t = total_key r)
                           (transactions s). t_amount t)"
      unfolding r mk_key mk_tot .
  qed
  show ?thesis
    unfolding res using sorted dist set_keys totals by (intro conjI)
qed

text \<open>
  C7. Let the category ids be distinct, as the primary key makes them. Then for every
  store and optional date bounds, \<^verbatim>\<open>get_expenses_by_category\<close> returns the totals by
  category of the \<^verbatim>\<open>expense\<close> transactions and \<^verbatim>\<open>get_income_by_category\<close> those of the
  \<^verbatim>\<open>income\<close> transactions: records (category id, name, color, total) ordered by total,
  largest first, one for every group of the transactions of that type within the bounds,
  where the group of a transaction is the category that has its \<^verbatim>\<open>category_id\<close>, and the
  one synthetic group of id 0 with the label and the default gray when that category is
  absent; the total of a record is the sum of the amounts of the transactions of the
  type, within the bounds, in its group.
\<close>

theorem sum_by_category_groups:
  assumes "distinct (map c_id (categories s))"
  shows "category_totals_of (get_expenses_by_category api start_date end_date s)
           ''expense'' api start_date end_date s
       \<and> category_totals_of (get_income_by_category api start_date end_date s)
           ''income'' api start_date end_date s"
  unfolding get_expenses_by_category_def get_income_by_category_def
  by (rule conjI [OF sum_by_category_totals [OF assms] sum_by_category_totals [OF assms]])


lemma distinct_set_singleton:
  assumes "distinct xs" and "set xs = {k}"
  shows "xs = [k]"
proof (cases xs)
  case Nil
  with assms show ?thesis by simp
next
  case (Cons x ys)
  with assms have x: "x = k" and "k \<notin> set ys" and "set ys \<subseteq> {k}"
    by auto
  then have "set ys = {}" by (auto simp: subset_singleton_iff)
  then have "ys = []" by simp
  with Cons x show ?thesis by simp
qed

theorem sum_by_category_groups_witness:
  "distinct (map c_id (categories example_db))
   \<and> get_expenses_by_category iso_api (DateStr ''2024-01-11'') (DateStr ''2024-02-02'')
       (example_db\<lparr>transactions := transactions example_db @
          [\<lparr>t_id = 4, t_amount = 50, t_category_id = None, t_date = ''2024-02-03'',
            t_description = [], t_type = ''expense''\<rparr>]\<rparr>)
     = [\<lparr>ct_category_id = 2, ct_category_name = ''Food'', ct_category_color = ''#F44336'',
         ct_total = 200\<rparr>]
   \<and> get_income_by_category iso_api NoDate (DateStr ''2024-01-04'')
       (example_db\<lparr>transactions := transactions example_db @
          [\<lparr>t_id = 4, t_amount = 50, t_category_id = None, t_date = ''2024-02-03'',
            t_description = [], t_type = ''expense''\<rparr>]\<rparr>)
     = []
   \<and> get_expenses_by_category iso_api NoDate NoDate
       (example_db\<lparr>transactions := transactions example_db @
          [\<lparr>t_id = 4, t_amount = 50, t_category_id = None, t_date = ''2024-02-03'',
            t_description = [], t_type = ''expense''\<rparr>]\<rparr>)
     = [\<lparr>ct_category_id = 2, ct_category_name = ''Food'', ct_category_color = ''#F44336'',
         ct_total = 500\<rparr>,
        \<lparr>ct_category_id = 0, ct_category_name = uncategorized,
         ct_category_color = default_color, ct_total = 50\<rparr>]"
proof -
  let ?db = "example_db\<lparr>transactions := transactions example_db @
          [\<lparr>t_id = 4, t_amount = 50, t_category_id = None, t_date = ''2024-02-03'',
            t_description = [], t_type = ''expense''\<rparr>]\<rparr>"
  let ?food = "(2 :: int, ''Food'', ''#F44336'')"
  have d: "distinct (map c_id (categories example_db))"
    by (simp add: example_db_def)
  then have d': "distinct (map c_id (categories ?db))"
    by simp
  note bounded = sum_by_category_groups [OF d', where api = iso_api
      and start_date = "DateStr ''2024-01-11''" and end_date = "DateStr ''2024-02-02''"]
  note early = sum_by_category_groups [OF d', where api = iso_api
      and start_date = NoDate and end_date = "DateStr ''2024-01-04''"]
  let ?res = "get_expenses_by_category iso_api (DateStr ''2024-01-11'') (DateStr ''2024-02-02'') ?db"
  have txs: "filter (\<lambda>t. t_type t = ''expense''
                    \<and> within_bounds iso_api (DateStr ''2024-01-11'') (DateStr ''2024-02-02'') (t_date t))
               (transactions ?db)
             = [transactions example_db ! 2]"
    by (simp add: example_db_def)
  have grp: "category_group ?db (transactions example_db ! 2) = ?food"
    by (simp add: example_db_def)
  note e = bounded [THEN conjunct1]
  have dist: "distinct (map total_key ?res)"
    by (rule e [THEN conjunct2, THEN conjunct1])
  have keys: "set (map total_key ?res) = {?food}"
    using e [THEN conjunct2, THEN conjunct2, THEN conjunct1]
    unfolding txs by (simp add: grp)
  have totals: "\<forall>r \<in> set ?res.
           ct_total r
           = (\<Sum>t \<leftarrow> filter (\<lambda>t. t_type t = ''expense''
                  \<and> within_bounds iso_api (DateStr ''2024-01-11'') (DateStr ''2024-02-02'') (t_date t)
                  \<and> category_group ?db t = total_key r)
                           (transactions ?db). t_amount t)"
    by (rule e [THEN conjunct2, THEN conjunct2, THEN conjunct2])
  from dist keys have "map total_key ?res = [?food]"
    by (rule distinct_set_singleton)
  then obtain r where r: "?res = [r]" and k: "total_key r = ?food"
    by (cases ?res) auto
  from totals r have "ct_total r
           = (\<Sum>t \<leftarrow> filter (\<lambda>t. t_type t = ''expense''
                  \<and> within_bounds iso_api (DateStr ''2024-01-11'') (DateStr ''2024-02-02'') (t_date t)
                  \<and> category_group ?db t = total_key r)
                           (transactions ?db). t_amount t)"
    by simp
  also have "\<dots> = 200"
    unfolding k by (simp add: example_db_def)
  finally have "ct_total r = 200" .
  with k have "r = \<lparr>ct_category_id = 2, ct_category_name = ''Food'', ct_category_color = ''#F44336'',
         ct_total = 200\<rparr>"
    by (cases r) simp
  with r have a: "?res = [\<lparr>ct_category_id = 2, ct_category_name = ''Food'',
         ct_category_color = ''#F44336'', ct_total = 200\<rparr>]"
    by simp
  have none: "filter (\<lambda>t. t_type t = ''income''
                    \<and> within_bounds iso_api NoDate (DateStr ''2024-01-04'') (t_date t))
               (transactions ?db) = []"
    by (simp add: example_db_def)
  have "set (map total_key (get_income_by_category iso_api NoDate (DateStr ''2024-01-04'') ?db)) = {}"
    using early [THEN conjunct2, THEN conjunct2, THEN conjunct2, THEN conjunct1]
    unfolding none by simp
  then have b: "get_income_by_category iso_api NoDate (DateStr ''2024-01-04'') ?db = []"
    by simp
  have rows: "category_query_rows ''expense'' iso_api NoDate NoDate ?db
     = [(transactions example_db ! 1, Some (categories example_db ! 1)),
        (transactions example_db ! 2, Some (categories example_db ! 1)),
        (\<lparr>t_id = 4, t_amount = 50, t_category_id = None, t_date = ''2024-02-03'',
            t_description = [], t_type = ''expense''\<rparr>, None)]"
    by (simp add: category_query_rows_def left_join_def date_condition_def truthy_def
        example_db_def)
  have c: "get_expenses_by_category iso_api NoDate NoDate ?db
     = [\<lparr>ct_category_id = 2, ct_category_name = ''Food'', ct_category_color = ''#F44336'',
         ct_total = 500\<rparr>,
        \<lparr>ct_category_id = 0, ct_category_name = uncategorized,
         ct_category_color = default_color, ct_total = 50\<rparr>]"
    unfolding get_expenses_by_category_def sum_by_category_def rows
    by (simp add: group_by_sum_def order_by_desc_def category_key_def example_db_def
        uncategorized_def default_color_def)
  show ?thesis
    using d a b c by (intro conjI)
qed

section \<open>Totals by month\<close>

lemma keys_month_row_step:
  "map fst (month_row_step ((m, ty), v) md)
   = (if m \<in> set (map fst md) then map fst md else map fst md @ [m])"
  by (auto simp: month_row_step_def Let_def case_prod_unfold comp_def
      intro!: map_cong [OF refl])

lemma map_of_update_key:
  "map_of (map (\<lambda>(k, r). if k = m then (k, g r) else (k, r)) xs) k
   = (if k = m then map_option g (map_of xs m) else map_of xs k)"
  by (induction xs) auto

lemma map_of_month_row_step:
  "map_of (month_row_step ((m, ty), v) md) k
   = (if k = m
      then Some (update_month_record ty v
                   (case map_of md m of Some r \<Rightarrow> r | None \<Rightarrow> new_month_record m))
      else map_of md k)"
proof (cases "m \<in> fst ` set md")
  case True
  then obtain r where "map_of md m = Some r"
    by (metis map_of_eq_None_iff not_Some_eq)
  with True show ?thesis
    by (simp add: month_row_step_def map_of_update_key)
next
  case False
  then have "map_of md m = None"
    by (simp add: map_of_eq_None_iff)
  with False show ?thesis
    by (simp add: month_row_step_def map_of_update_key map_add_def split: option.splits)
qed

lemma distinct_month_row_step:
  "distinct (map fst md) \<Longrightarrow> distinct (map fst (month_row_step ((m, ty), v) md))"
  by (simp add: keys_month_row_step)

lemma keys_fold_month_rows:
  "set (map fst (fold_month_rows rows md)) = set (map fst md) \<union> (fst \<circ> fst) ` set rows"
proof (induction rows arbitrary: md)
  case Nil
  show ?case by simp
next
  case (Cons row rows)
  obtain m ty v where row: "row = ((m, ty), v)" by (cases row) auto
  show ?case
    unfolding fold_month_rows.simps Cons.IH row
    by (auto simp: keys_month_row_step)
qed

lemma distinct_fold_month_rows:
  "distinct (map fst md) \<Longrightarrow> distinct (map fst (fold_month_rows rows md))"
proof (induction rows arbitrary: md)
  case Nil
  then show ?case by simp
next
  case (Cons row rows)
  obtain m ty v where row: "row = ((m, ty), v)" by (cases row) auto
  from Cons.prems show ?case
    unfolding fold_month_rows.simps row
    by (intro Cons.IH distinct_month_row_step)
qed

lemma month_ok_update: "month_ok (k, r) \<Longrightarrow> month_ok (k, update_month_record ty v r)"
  by (simp add: month_ok_def update_month_record_def set_type_total_def Let_def)

lemma month_ok_new: "month_ok (m, new_month_record m)"
  by (simp add: month_ok_def new_month_record_def)

lemma month_ok_step:
  assumes "list_all month_ok md"
  shows "list_all month_ok (month_row_step ((m, ty), v) md)"
proof -
  let ?f = "\<lambda>(k, r). if k = m then (k, update_month_record ty v r) else (k, r)"
  have f: "month_ok x \<Longrightarrow> month_ok (?f x)" for x
    by (cases x) (auto simp: month_ok_update)
  have "list_all month_ok xs \<Longrightarrow> list_all month_ok (map ?f xs)" for xs
    by (induction xs) (simp_all add: f)
  with assms month_ok_new [of m] show ?thesis
    by (simp add: month_row_step_def Let_def)
qed

lemma month_ok_fold:
  "list_all month_ok md \<Longrightarrow> list_all month_ok (fold_month_rows rows md)"
proof (induction rows arbitrary: md)
  case Nil
  then show ?case by simp
next
  case (Cons row rows)
  obtain m ty v where row: "row = ((m, ty), v)" by (cases row) auto
  from Cons.prems show ?case
    unfolding fold_month_rows.simps row
    by (intro Cons.IH month_ok_step)
qed


lemma income_update_month_record:
  "m_income (update_month_record ty v r) = (if ty = ''income'' then v else m_income r)"
  by (simp add: update_month_record_def set_type_total_def Let_def)

lemma expense_update_month_record:
  "m_expense (update_month_record ty v r) = (if ty = ''expense'' then v else m_expense r)"
  by (simp add: update_month_record_def set_type_total_def Let_def)

text \<open>
  The field that the loop leaves in a month's record for a type: the total of the row of
  that month and type if the query has one, else what the record had (0 for a new
  record). \<open>field\<close> is \<open>m_income\<close> for the type \<^verbatim>\<open>income\<close> and \<open>m_expense\<close> for \<^verbatim>\<open>expense\<close>.
\<close>

lemma field_fold_month_rows:
  assumes field: "\<And>ty v r. field (update_month_record ty v r) = (if ty = lit then v else field r)"
    and zero: "\<And>m. field (new_month_record m) = 0"
    and rows: "distinct (map fst rows)"
  shows "(case map_of (fold_month_rows rows md) k of Some r \<Rightarrow> field r | None \<Rightarrow> 0)
         = (case map_of rows (k, lit) of
              Some v \<Rightarrow> v
            | None \<Rightarrow> (case map_of md k of Some r \<Rightarrow> field r | None \<Rightarrow> 0))"
  using rows
proof (induction rows arbitrary: md)
  case Nil
  show ?case by simp
next
  case (Cons row rows)
  obtain m ty v where row: "row = ((m, ty), v)" by (cases row) auto
  from Cons.prems row have fresh: "(m, ty) \<notin> fst ` set rows" and d: "distinct (map fst rows)"
    by auto
  let ?md = "month_row_step ((m, ty), v) md"
  have IH: "(case map_of (fold_month_rows rows ?md) k of Some r \<Rightarrow> field r | None \<Rightarrow> 0)
         = (case map_of rows (k, lit) of
              Some v \<Rightarrow> v
            | None \<Rightarrow> (case map_of ?md k of Some r \<Rightarrow> field r | None \<Rightarrow> 0))"
    by (rule Cons.IH [OF d])
  show ?case
  proof (cases "(k, lit) = (m, ty)")
    case True
    with fresh have "map_of rows (k, lit) = None"
      by (simp add: map_of_eq_None_iff)
    with True show ?thesis
      unfolding row fold_month_rows.simps IH
      by (simp add: map_of_month_row_step field)
  next
    case False
    have "(case map_of ?md k of Some r \<Rightarrow> field r | None \<Rightarrow> 0)
          = (case map_of md k of Some r \<Rightarrow> field r | None \<Rightarrow> 0)"
      using False by (auto simp: map_of_month_row_step field zero split: option.splits)
    with False show ?thesis
      unfolding row fold_month_rows.simps IH
      by (auto split: option.splits)
  qed
qed


lemma total_group_by_sum:
  "(case map_of (group_by_sum key val rows) k of Some v \<Rightarrow> v | None \<Rightarrow> 0)
   = sum_list (map val (filter (\<lambda>r. key r = k) rows))"
proof (cases "k \<in> key ` set rows")
  case True
  then show ?thesis
    by (simp add: group_by_sum_def map_of_map_restrict)
next
  case False
  then have "filter (\<lambda>r. key r = k) rows = []"
    by (auto simp: filter_empty_conv)
  with False show ?thesis
    by (simp add: group_by_sum_def map_of_map_restrict)
qed

lemma distinct_keys_sort_key:
  assumes "distinct (map fst xs)"
  shows "distinct (map fst (sort_key g xs))" and "map_of (sort_key g xs) = map_of xs"
proof -
  have "mset (map fst (sort_key g xs)) = mset (map fst xs)"
    by simp
  with assms show d: "distinct (map fst (sort_key g xs))"
    using mset_eq_imp_distinct_iff by blast
  show "map_of (sort_key g xs) = map_of xs"
    using d assms by (simp add: map_of_inject_set)
qed

lemma month_query_keys:
  "distinct (map fst (month_query sql_month api lo hi s))"
  "(fst \<circ> fst) ` set (month_query sql_month api lo hi s)
   = (\<lambda>t. sql_month (t_date t)) ` set (month_query_rows api lo hi s)"
  "(case map_of (month_query sql_month api lo hi s) (m, ty) of Some v \<Rightarrow> v | None \<Rightarrow> 0)
   = (\<Sum>t \<leftarrow> filter (\<lambda>t. sql_month (t_date t) = m \<and> t_type t = ty)
                   (month_query_rows api lo hi s). t_amount t)"
proof -
  let ?G = "group_by_sum (\<lambda>t. (sql_month (t_date t), t_type t)) t_amount
              (month_query_rows api lo hi s)"
  have d: "distinct (map fst ?G)"
    by (simp add: map_fst_group_by_sum)
  show "distinct (map fst (month_query sql_month api lo hi s))"
    unfolding month_query_def by (rule distinct_keys_sort_key(1) [OF d])
  have "fst ` set (month_query sql_month api lo hi s)
        = (\<lambda>t. (sql_month (t_date t), t_type t)) ` set (month_query_rows api lo hi s)"
    by (simp add: month_query_def keys_group_by_sum)
  then have "fst ` fst ` set (month_query sql_month api lo hi s)
        = fst ` (\<lambda>t. (sql_month (t_date t), t_type t)) ` set (month_query_rows api lo hi s)"
    by simp
  then show "(fst \<circ> fst) ` set (month_query sql_month api lo hi s)
   = (\<lambda>t. sql_month (t_date t)) ` set (month_query_rows api lo hi s)"
    by (simp add: image_image)
  have "map_of (month_query sql_month api lo hi s) = map_of ?G"
    unfolding month_query_def by (rule distinct_keys_sort_key(2) [OF d])
  then show "(case map_of (month_query sql_month api lo hi s) (m, ty) of Some v \<Rightarrow> v | None \<Rightarrow> 0)
   = (\<Sum>t \<leftarrow> filter (\<lambda>t. sql_month (t_date t) = m \<and> t_type t = ty)
                   (month_query_rows api lo hi s). t_amount t)"
    by (simp add: total_group_by_sum)
qed

lemma month_query_rows_bounds:
  "month_query_rows api start_date end_date s
   = filter (\<lambda>t. within_bounds api start_date end_date (t_date t)) (transactions s)"
  by (simp add: month_query_rows_def date_condition_bounds)

text \<open>
  Both writers keep the types of the stored transactions within \<^verbatim>\<open>income\<close> and
  \<^verbatim>\<open>expense\<close>.
\<close>

lemma writers_keep_types:
  assumes "\<forall>t \<in> set (transactions s). t_type t \<in> {''income'', ''expense''}"
  shows "\<forall>t \<in> set (transactions (snd (add_transaction api amount cid descr ty date s))).
           t_type t \<in> {''income'', ''expense''}"
    and "update_transaction api tid amount cid descr date ty s = Inr (ok, s')
         \<Longrightarrow> \<forall>t \<in> set (transactions s'). t_type t \<in> {''income'', ''expense''}"
  using assms
  by (auto simp: add_transaction_def update_transaction_def Let_def
      split: option.splits if_splits date_arg.splits)

text \<open>
  Where the claim holds. Let every stored transaction have the type \<^verbatim>\<open>income\<close> or
  \<^verbatim>\<open>expense\<close>, and let SQLite read a month from the date of every transaction within the
  bounds. Then \<^verbatim>\<open>get_transactions_by_month\<close> returns records sorted ascending by month
  with no month twice; their months are exactly the months of the transactions within
  the bounds; and in every record the balance is the income minus the expense, the income
  is the sum of the amounts of the month's income transactions within the bounds and the
  expense that of its expense transactions, a sum over no transaction being 0.
\<close>

lemma get_transactions_by_month_readable_dates:
  assumes "\<forall>t \<in> set (transactions s). t_type t \<in> {''income'', ''expense''}"
    and dates: "\<forall>t \<in> set (transactions s).
                  within_bounds api start_date end_date (t_date t) \<longrightarrow> sql_month (t_date t) \<noteq> None"
  shows "\<exists>res. get_transactions_by_month sql_month api start_date end_date s = Inr res
     \<and> sorted (map m_month res)
     \<and> distinct (map m_month res)
     \<and> set (map m_month res)
         = (\<lambda>t. sql_month (t_date t)) `
             set (filter (\<lambda>t. within_bounds api start_date end_date (t_date t)) (transactions s))
     \<and> (\<forall>r \<in> set res.
           m_balance r = m_income r - m_expense r
           \<and> m_income r
               = (\<Sum>t \<leftarrow> filter (\<lambda>t. within_bounds api start_date end_date (t_date t)
                                      \<and> sql_month (t_date t) = m_month r \<and> t_type t = ''income'')
                               (transactions s). t_amount t)
           \<and> m_expense r
               = (\<Sum>t \<leftarrow> filter (\<lambda>t. within_bounds api start_date end_date (t_date t)
                                      \<and> sql_month (t_date t) = m_month r \<and> t_type t = ''expense'')
                               (transactions s). t_amount t))"
proof -
  let ?txs = "filter (\<lambda>t. within_bounds api start_date end_date (t_date t)) (transactions s)"
  let ?rows = "month_query sql_month api start_date end_date s"
  let ?md = "fold_month_rows ?rows []"
  let ?res = "sort_key m_month (map snd ?md)"
  have txs: "month_query_rows api start_date end_date s = ?txs"
    by (rule month_query_rows_bounds)
  have ok: "list_all month_ok ?md"
    by (rule month_ok_fold) simp
  then have months: "map m_month (map snd ?md) = map fst ?md"
    by (auto simp: list_all_iff month_ok_def)
  have dist_md: "distinct (map fst ?md)"
    by (rule distinct_fold_month_rows) simp
  have keys_md: "set (map fst ?md) = (\<lambda>t. sql_month (t_date t)) ` set ?txs"
    by (simp only: keys_fold_month_rows month_query_keys(2) txs) simp
  have "None \<notin> (\<lambda>t. sql_month (t_date t)) ` set ?txs"
    using dates by auto
  then have "None \<notin> set (map m_month (map snd ?md))"
    unfolding months keys_md .
  then have run: "get_transactions_by_month sql_month api start_date end_date s = Inr ?res"
    by (simp add: get_transactions_by_month_def sort_by_month_def Let_def image_image)
  have sorted: "sorted (map m_month ?res)"
    by (rule sorted_sort_key)
  have "mset (map m_month ?res) = mset (map m_month (map snd ?md))"
    by (simp add: multiset.map_comp)
  then have "mset (map m_month ?res) = mset (map fst ?md)"
    by (simp only: months)
  then have dist: "distinct (map m_month ?res)"
    using dist_md mset_eq_imp_distinct_iff by blast
  have "set (map m_month ?res) = set (map m_month (map snd ?md))"
    by (simp add: image_image)
  then have keys: "set (map m_month ?res) = (\<lambda>t. sql_month (t_date t)) ` set ?txs"
    by (simp only: months keys_md)
  have recs: "m_balance r = m_income r - m_expense r
           \<and> m_income r
               = (\<Sum>t \<leftarrow> filter (\<lambda>t. within_bounds api start_date end_date (t_date t)
                                      \<and> sql_month (t_date t) = m_month r \<and> t_type t = ''income'')
                               (transactions s). t_amount t)
           \<and> m_expense r
               = (\<Sum>t \<leftarrow> filter (\<lambda>t. within_bounds api start_date end_date (t_date t)
                                      \<and> sql_month (t_date t) = m_month r \<and> t_type t = ''expense'')
                               (transactions s). t_amount t)"
    if "r \<in> set ?res" for r
  proof -
    from that obtain k where kr: "(k, r) \<in> set ?md"
      by auto
    with ok have k: "m_month r = k" and bal: "m_balance r = m_income r - m_expense r"
      by (auto simp: list_all_iff month_ok_def)
    from kr dist_md have look: "map_of ?md (m_month r) = Some r"
      unfolding k by simp
    have "m_income r = (case map_of ?rows (m_month r, ''income'') of Some v \<Rightarrow> v | None \<Rightarrow> 0)"
      using field_fold_month_rows [of m_income "''income''" ?rows "[]" "m_month r",
          OF income_update_month_record _ month_query_keys(1)]
      by (simp add: look new_month_record_def cong: option.case_cong)
    then have inc: "m_income r
               = (\<Sum>t \<leftarrow> filter (\<lambda>t. sql_month (t_date t) = m_month r \<and> t_type t = ''income'')
                               ?txs. t_amount t)"
      by (simp only: month_query_keys(3) txs)
    have "m_expense r = (case map_of ?rows (m_month r, ''expense'') of Some v \<Rightarrow> v | None \<Rightarrow> 0)"
      using field_fold_month_rows [of m_expense "''expense''" ?rows "[]" "m_month r",
          OF expense_update_month_record _ month_query_keys(1)]
      by (simp add: look new_month_record_def cong: option.case_cong)
    then have exp: "m_expense r
               = (\<Sum>t \<leftarrow> filter (\<lambda>t. sql_month (t_date t) = m_month r \<and> t_type t = ''expense'')
                               ?txs. t_amount t)"
      by (simp only: month_query_keys(3) txs)
    show ?thesis
      using bal inc exp by (simp add: conj_commute conj_left_commute cong: conj_cong)
  qed
  show ?thesis
    using run sorted dist keys recs by blast
qed


lemma month_query_example:
  "month_query iso_month iso_api NoDate NoDate example_db
   = [((Some ''2024-01'', ''income''), 1000), ((Some ''2024-01'', ''expense''), 300),
      ((Some ''2024-02'', ''expense''), 200)]"
proof -
  have m: "iso_month ''2024-01-05'' = Some ''2024-01''" "iso_month ''2024-01-10'' = Some ''2024-01''"
    "iso_month ''2024-02-01'' = Some ''2024-02''"
    by (simp_all add: iso_month_def iso_strptime_def digit_def days_in_month_def)
  show ?thesis
    by (simp add: month_query_def month_query_rows_def group_by_sum_def date_condition_def
        truthy_def example_db_def m)
qed

text \<open>The scenario of the specification: the three transactions of the example store.\<close>

lemma get_transactions_by_month_example:
  "get_transactions_by_month iso_month iso_api NoDate NoDate example_db
   = Inr [\<lparr>m_month = Some ''2024-01'', m_income = 1000, m_expense = 300, m_balance = 700\<rparr>,
          \<lparr>m_month = Some ''2024-02'', m_income = 0, m_expense = 200, m_balance = - 200\<rparr>]"
  unfolding get_transactions_by_month_def month_query_example
  by (simp add: month_row_step_def update_month_record_def set_type_total_def
      new_month_record_def sort_by_month_def)

text \<open>
  C6. The claim fails on a store that the writers can make. With Python on the C library
  of Linux, \<^verbatim>\<open>add_transaction(10, None, "", "income", "0005-01-01")\<close> parses the date and
  stores it as \<^verbatim>\<open>5-01-01\<close>, which is no date for SQLite. The query then has a NULL month,
  the loop makes a record whose month is \<^verbatim>\<open>None\<close>, and sorting it with the records of the
  other months raises a TypeError that \<^verbatim>\<open>get_transactions_by_month\<close> does not catch: no
  list of month records is returned.
\<close>

theorem get_transactions_by_month_null_month:
  "add_transaction glibc_api 10 None [] ''income'' (DateStr ''0005-01-01'') example_db
   = (Some 4,
      example_db\<lparr>transactions := transactions example_db @
         [\<lparr>t_id = 4, t_amount = 10, t_category_id = None, t_date = ''5-01-01'',
           t_description = [], t_type = ''income''\<rparr>]\<rparr>)
   \<and> iso_month ''5-01-01'' = None
   \<and> get_transactions_by_month iso_month glibc_api NoDate NoDate
       (example_db\<lparr>transactions := transactions example_db @
         [\<lparr>t_id = 4, t_amount = 10, t_category_id = None, t_date = ''5-01-01'',
           t_description = [], t_type = ''income''\<rparr>]\<rparr>)
     = Inl TypeError"
proof -
  have ids: "lastrowid (map t_id (transactions example_db)) = 4"
    by (simp add: lastrowid_def example_db_def)
  have parse: "strptime glibc_api ''0005-01-01'' = Some (5, 1, 1)"
    by (simp add: glibc_api_def iso_strptime_def digit_def)
  have fmt: "strftime glibc_api (5, Suc 0, Suc 0) = ''5-01-01''"
    by (simp add: glibc_api_def glibc_strftime_def digit_char_def)
  have add: "add_transaction glibc_api 10 None [] ''income'' (DateStr ''0005-01-01'') example_db
   = (Some 4,
      example_db\<lparr>transactions := transactions example_db @
         [\<lparr>t_id = 4, t_amount = 10, t_category_id = None, t_date = ''5-01-01'',
           t_description = [], t_type = ''income''\<rparr>]\<rparr>)"
    by (simp add: add_transaction_def Let_def ids parse fmt)
  have m: "iso_month ''2024-01-05'' = Some ''2024-01''" "iso_month ''2024-01-10'' = Some ''2024-01''"
    "iso_month ''2024-02-01'' = Some ''2024-02''"
    by (simp_all add: iso_month_def iso_strptime_def digit_def days_in_month_def)
  have null: "iso_month ''5-01-01'' = None"
    by (simp add: iso_month_def iso_strptime_def)
  have rows: "month_query iso_month glibc_api NoDate NoDate
       (example_db\<lparr>transactions := transactions example_db @
         [\<lparr>t_id = 4, t_amount = 10, t_category_id = None, t_date = ''5-01-01'',
           t_description = [], t_type = ''income''\<rparr>]\<rparr>)
   = [((None, ''income''), 10), ((Some ''2024-01'', ''income''), 1000),
      ((Some ''2024-01'', ''expense''), 300), ((Some ''2024-02'', ''expense''), 200)]"
    by (simp add: month_query_def month_query_rows_def group_by_sum_def date_condition_def
        truthy_def example_db_def m null)
  have run: "get_transactions_by_month iso_month glibc_api NoDate NoDate
       (example_db\<lparr>transactions := transactions example_db @
         [\<lparr>t_id = 4, t_amount = 10, t_category_id = None, t_date = ''5-01-01'',
           t_description = [], t_type = ''income''\<rparr>]\<rparr>)
     = Inl TypeError"
    unfolding get_transactions_by_month_def rows
    by (simp add: month_row_step_def update_month_record_def set_type_total_def
        new_month_record_def sort_by_month_def)
  show ?thesis
    using add null run by (intro conjI)
qed

end
